theory Spec2Isabelle
  imports Complex_Main "HOL-Library.AList"
begin

section \<open>JavaScript numbers\<close>

text \<open>
  The program is TypeScript; every quantity is a JavaScript \<^verbatim>\<open>number\<close>, a double. A
  finite double is a real number and is kept as that real (the two zeros are one value);
  the three non-finite values are kept too, because the code tests \<^verbatim>\<open>Number.isFinite\<close>
  throughout and every comparison with \<^verbatim>\<open>NaN\<close> is false. Comparison, negation,
  \<^verbatim>\<open>Math.abs\<close> and \<^verbatim>\<open>Math.max\<close> are exact on doubles and are defined here. Addition,
  subtraction, multiplication and division round their result: the functions of the
  program that compute with them take the four operations as a parameter (see \<open>FloatOps\<close>
  below). A decimal literal of the source is taken at its decimal value.
\<close>

datatype number = Num real | PosInf | NegInf | NaN

fun isFinite :: "number \<Rightarrow> bool" where
  "isFinite (Num _) = True"
| "isFinite _ = False"

text \<open>\<^verbatim>\<open>a < b\<close>, \<^verbatim>\<open>a <= b\<close>, \<^verbatim>\<open>a > b\<close>, \<^verbatim>\<open>a >= b\<close> and \<^verbatim>\<open>a === b\<close> on numbers.\<close>

fun num_lt :: "number \<Rightarrow> number \<Rightarrow> bool" where
  "num_lt (Num a) (Num b) = (a < b)"
| "num_lt (Num _) PosInf = True"
| "num_lt NegInf (Num _) = True"
| "num_lt NegInf PosInf = True"
| "num_lt _ _ = False"

fun strict_eq :: "number \<Rightarrow> number \<Rightarrow> bool" where
  "strict_eq (Num a) (Num b) = (a = b)"
| "strict_eq PosInf PosInf = True"
| "strict_eq NegInf NegInf = True"
| "strict_eq _ _ = False"

definition num_le :: "number \<Rightarrow> number \<Rightarrow> bool" where
  "num_le a b = (num_lt a b \<or> strict_eq a b)"

definition num_gt :: "number \<Rightarrow> number \<Rightarrow> bool" where
  "num_gt a b = num_lt b a"

definition num_ge :: "number \<Rightarrow> number \<Rightarrow> bool" where
  "num_ge a b = num_le b a"

text \<open>
  Negation, and the four operations without rounding: \<^verbatim>\<open>a + b\<close>, \<^verbatim>\<open>a - b\<close>, \<^verbatim>\<open>a * b\<close>,
  \<^verbatim>\<open>a / b\<close> as they would be were every real a double.
\<close>

fun num_neg :: "number \<Rightarrow> number" where
  "num_neg (Num a) = Num (- a)"
| "num_neg PosInf = NegInf"
| "num_neg NegInf = PosInf"
| "num_neg NaN = NaN"

fun num_add :: "number \<Rightarrow> number \<Rightarrow> number" where
  "num_add (Num a) (Num b) = Num (a + b)"
| "num_add NaN _ = NaN"
| "num_add _ NaN = NaN"
| "num_add PosInf NegInf = NaN"
| "num_add NegInf PosInf = NaN"
| "num_add PosInf _ = PosInf"
| "num_add _ PosInf = PosInf"
| "num_add NegInf _ = NegInf"
| "num_add _ NegInf = NegInf"

definition num_sub :: "number \<Rightarrow> number \<Rightarrow> number" where
  "num_sub a b = num_add a (num_neg b)"

text \<open>The sign of an infinite product: positive, negative, or \<^verbatim>\<open>NaN\<close> for a zero factor.\<close>

definition signed_inf :: "real \<Rightarrow> number" where
  "signed_inf s = (if s > 0 then PosInf else if s < 0 then NegInf else NaN)"

fun num_mul :: "number \<Rightarrow> number \<Rightarrow> number" where
  "num_mul (Num a) (Num b) = Num (a * b)"
| "num_mul NaN _ = NaN"
| "num_mul _ NaN = NaN"
| "num_mul (Num a) PosInf = signed_inf a"
| "num_mul (Num a) NegInf = signed_inf (- a)"
| "num_mul PosInf (Num b) = signed_inf b"
| "num_mul NegInf (Num b) = signed_inf (- b)"
| "num_mul PosInf PosInf = PosInf"
| "num_mul NegInf NegInf = PosInf"
| "num_mul PosInf NegInf = NegInf"
| "num_mul NegInf PosInf = NegInf"

fun num_div :: "number \<Rightarrow> number \<Rightarrow> number" where
  "num_div (Num a) (Num b) = (if b = 0 then signed_inf a else Num (a / b))"
| "num_div NaN _ = NaN"
| "num_div _ NaN = NaN"
| "num_div (Num _) _ = Num 0"
| "num_div PosInf (Num b) = (if b < 0 then NegInf else PosInf)"
| "num_div NegInf (Num b) = (if b < 0 then PosInf else NegInf)"
| "num_div _ _ = NaN"

text \<open>\<^verbatim>\<open>Math.abs\<close> and \<^verbatim>\<open>Math.max\<close> (which is \<^verbatim>\<open>NaN\<close> as soon as one argument is).\<close>

fun num_abs :: "number \<Rightarrow> number" where
  "num_abs (Num a) = Num \<bar>a\<bar>"
| "num_abs NaN = NaN"
| "num_abs _ = PosInf"

fun num_max :: "number \<Rightarrow> number \<Rightarrow> number" where
  "num_max NaN _ = NaN"
| "num_max _ NaN = NaN"
| "num_max a b = (if num_lt a b then b else a)"

text \<open>
  The four rounding operations of the double format, as the program's functions receive
  them. Every statement below that mentions \<open>ops\<close> holds for whatever these four are, so
  for the operations of the machine. \<open>exactOps\<close> is the instance without rounding; it
  serves the concrete inputs, where it is named.
\<close>

record FloatOps =
  fadd :: "number \<Rightarrow> number \<Rightarrow> number"
  fsub :: "number \<Rightarrow> number \<Rightarrow> number"
  fmul :: "number \<Rightarrow> number \<Rightarrow> number"
  fdiv :: "number \<Rightarrow> number \<Rightarrow> number"

definition exactOps :: FloatOps where
  "exactOps = \<lparr> fadd = num_add, fsub = num_sub, fmul = num_mul, fdiv = num_div \<rparr>"

section \<open>Swing logic: the pure state machine\<close>

datatype SwingDirection = Long | Short | Both

record SwingLogicConfig =
  direction :: SwingDirection
  rsiHigh :: number
  rsiLow :: number

record SwingState =
  prevRsi :: "number option"
  armedShortEntry :: bool
  armedShortExit :: bool
  armedLongEntry :: bool
  armedLongExit :: bool

text \<open>An action carries its reason string, as in the source.\<close>

datatype SwingAction = OPEN_SHORT string | OPEN_LONG string | CLOSE_POSITION string

record SwingStepInput =
  rsi :: "number option"
  positionAmt :: number
  pnl :: number

definition createInitialSwingState :: SwingState where
  "createInitialSwingState =
     \<lparr> prevRsi = None, armedShortEntry = False, armedShortExit = False,
       armedLongEntry = False, armedLongExit = False \<rparr>"

text \<open>The constant \<^verbatim>\<open>EPS = 1e-8\<close> of the swing logic.\<close>

definition EPS :: number where
  "EPS = Num (1 / 100000000)"

fun crossUp :: "number option \<Rightarrow> number \<Rightarrow> number \<Rightarrow> bool" where
  "crossUp None next threshold = False"
| "crossUp (Some prev) next threshold = (num_le prev threshold \<and> num_gt next threshold)"

fun crossDown :: "number option \<Rightarrow> number \<Rightarrow> number \<Rightarrow> bool" where
  "crossDown None next threshold = False"
| "crossDown (Some prev) next threshold = (num_ge prev threshold \<and> num_lt next threshold)"

text \<open>
  \<^verbatim>\<open>hasRsi\<close>: the reading is a number and finite. The result is the reading itself when it
  is valid.
\<close>

fun validRsi :: "number option \<Rightarrow> number option" where
  "validRsi (Some (Num r)) = Some (Num r)"
| "validRsi _ = None"

text \<open>The flat branch: exit arms dropped, then the short and the long entry blocks in turn.\<close>

definition stepFlat ::
  "SwingState \<Rightarrow> SwingLogicConfig \<Rightarrow> number \<Rightarrow> SwingState \<times> SwingAction list" where
  "stepFlat state config r =
     (let prev = prevRsi state;
          allowLong = (direction config = Long \<or> direction config = Both);
          allowShort = (direction config = Short \<or> direction config = Both);
          n0 = state\<lparr> prevRsi := Some r, armedShortExit := False, armedLongExit := False \<rparr>;
          n1 = (if \<not> allowShort then n0\<lparr> armedShortEntry := False \<rparr>
                else if crossUp prev r (rsiHigh config) then n0\<lparr> armedShortEntry := True \<rparr>
                else n0);
          fireShort = (allowShort \<and> armedShortEntry n1 \<and> crossDown prev r (rsiHigh config));
          n2 = (if fireShort then n1\<lparr> armedShortEntry := False, armedLongEntry := False \<rparr>
                else n1);
          a2 = (if fireShort
                then [OPEN_SHORT ''RSI armed above high, then crossed below high'']
                else []);
          n3 = (if \<not> allowLong then n2\<lparr> armedLongEntry := False \<rparr>
                else if crossDown prev r (rsiLow config) then n2\<lparr> armedLongEntry := True \<rparr>
                else n2);
          fireLong = (allowLong \<and> armedLongEntry n3 \<and> crossUp prev r (rsiLow config));
          n4 = (if fireLong then n3\<lparr> armedLongEntry := False, armedShortEntry := False \<rparr>
                else n3);
          a4 = (if fireLong
                then a2 @ [OPEN_LONG ''RSI armed below low, then crossed above low'']
                else a2)
      in if length a4 > 1
         then (n4\<lparr> armedShortEntry := False, armedLongEntry := False \<rparr>, [])
         else (n4, a4))"

text \<open>The two exposed branches; \<open>n0\<close> already has \<open>prevRsi\<close> updated and the entry arms dropped.\<close>

definition stepShort ::
  "SwingState \<Rightarrow> number option \<Rightarrow> SwingLogicConfig \<Rightarrow> number \<Rightarrow> number
     \<Rightarrow> SwingState \<times> SwingAction list" where
  "stepShort n0 prev config r p =
     (let n1 = n0\<lparr> armedLongExit := False \<rparr>;
          n2 = (if crossDown prev r (rsiLow config) then n1\<lparr> armedShortExit := True \<rparr> else n1)
      in if armedShortExit n2 \<and> crossUp prev r (rsiLow config) \<and> num_gt p (Num 0)
         then (n2\<lparr> armedShortExit := False \<rparr>,
               [CLOSE_POSITION ''RSI exit armed below low, then crossed above low with profit''])
         else (n2, []))"

definition stepLong ::
  "SwingState \<Rightarrow> number option \<Rightarrow> SwingLogicConfig \<Rightarrow> number \<Rightarrow> number
     \<Rightarrow> SwingState \<times> SwingAction list" where
  "stepLong n0 prev config r p =
     (let n1 = n0\<lparr> armedShortExit := False \<rparr>;
          n2 = (if crossUp prev r (rsiHigh config) then n1\<lparr> armedLongExit := True \<rparr> else n1)
      in if armedLongExit n2 \<and> crossDown prev r (rsiHigh config) \<and> num_gt p (Num 0)
         then (n2\<lparr> armedLongExit := False \<rparr>,
               [CLOSE_POSITION ''RSI exit armed above high, then crossed below high with profit''])
         else (n2, []))"

text \<open>
  \<^verbatim>\<open>stepSwing(state, config, input)\<close> returns \<^verbatim>\<open>{ nextState, actions }\<close>, here a pair.
\<close>

definition stepSwing ::
  "SwingState \<Rightarrow> SwingLogicConfig \<Rightarrow> SwingStepInput \<Rightarrow> SwingState \<times> SwingAction list" where
  "stepSwing state config input =
     (let prev = prevRsi state;
          amt = positionAmt input;
          isFlat = (\<not> isFinite amt \<or> num_le (num_abs amt) EPS);
          isLong = (isFinite amt \<and> num_gt amt EPS);
          isShort = (isFinite amt \<and> num_lt amt (num_neg EPS))
      in case validRsi (rsi input) of
           None \<Rightarrow> (state, [])
         | Some r \<Rightarrow>
             if isFlat then stepFlat state config r
             else
               (let n0 = state\<lparr> prevRsi := Some r, armedShortEntry := False,
                                armedLongEntry := False \<rparr>
                in if isShort then stepShort n0 prev config r (pnl input)
                   else if isLong then stepLong n0 prev config r (pnl input)
                   else (n0, [])))"

definition nextState :: "SwingState \<times> SwingAction list \<Rightarrow> SwingState" where
  "nextState out = fst out"

definition actions :: "SwingState \<times> SwingAction list \<Rightarrow> SwingAction list" where
  "actions out = snd out"



section \<open>String to number conversion\<close>

text \<open>
  Prices and quantities arrive as strings and are converted with \<^verbatim>\<open>Number(...)\<close>. The
  functions below take that conversion as their argument \<open>num\<close>, so every general
  statement holds for the built-in conversion. \<open>readInteger\<close> is not that conversion: it
  is an instance for the concrete inputs, all of which are integer literals of a few
  digits (an optional minus sign, then digits), where it gives what \<^verbatim>\<open>Number\<close> gives. The
  empty string is \<open>0\<close>, as for \<^verbatim>\<open>Number\<close>; on every other string (fractions, exponents,
  hexadecimal, signs, spaces, \<^verbatim>\<open>Infinity\<close>) it is \<^verbatim>\<open>NaN\<close>, whatever \<^verbatim>\<open>Number\<close> reads there.
\<close>

definition digitValue :: "char \<Rightarrow> nat option" where
  "digitValue c = map_of (zip ''0123456789'' [0, 1, 2, 3, 4, 5, 6, 7, 8, 9]) c"

fun digitsValue :: "nat \<Rightarrow> string \<Rightarrow> nat option" where
  "digitsValue acc [] = Some acc"
| "digitsValue acc (c # cs) =
     (case digitValue c of None \<Rightarrow> None | Some d \<Rightarrow> digitsValue (10 * acc + d) cs)"

definition readInteger :: "string \<Rightarrow> number" where
  "readInteger s =
     (case s of
        [] \<Rightarrow> Num 0
      | c # cs \<Rightarrow>
          if c = CHR ''-''
          then (case cs of
                  [] \<Rightarrow> NaN
                | _ # _ \<Rightarrow> (case digitsValue 0 cs of None \<Rightarrow> NaN | Some n \<Rightarrow> Num (- real n)))
          else (case digitsValue 0 s of None \<Rightarrow> NaN | Some n \<Rightarrow> Num (real n)))"

section \<open>Depth tracker\<close>

subsection \<open>Data\<close>

text \<open>
  A level is the pair \<^verbatim>\<open>[price, quantity]\<close> of strings. Update identifiers are sequence
  numbers: integers. A time is a number of milliseconds.
\<close>

type_synonym AsterDepthLevel = "string \<times> string"

datatype BinanceConnectionState = Connected | Disconnected | Stale

datatype DepthImbalance = buy_dominant | sell_dominant | balanced

record DepthUpdateEvent =
  ev_U :: int
  ev_u :: int
  ev_bids :: "AsterDepthLevel list"
  ev_asks :: "AsterDepthLevel list"

record DepthSnapshotResponse =
  lastUpdateId :: int
  snap_bids :: "AsterDepthLevel list"
  snap_asks :: "AsterDepthLevel list"

record BinanceDepthSnapshot =
  snapSymbol :: string
  buySum :: number
  sellSum :: number
  skipBuySide :: bool
  skipSellSide :: bool
  imbalance :: DepthImbalance
  updatedAt :: int
  windowBps :: number
  snapLocalLastUpdateId :: int

record BinanceDepthHealth =
  healthStarted :: bool
  connected :: bool
  healthOrderBookReady :: bool
  restHealthy :: bool
  healthy :: bool
  reason :: "string option"
  healthLastEventAt :: int
  healthLastSnapshotAt :: int
  healthLastRestSyncAt :: int
  healthLocalLastUpdateId :: int

text \<open>
  The snapshot fetch is asynchronous. While it is outstanding the tracker remembers which
  routine awaits it: the bootstrap loop (with its attempt counter and the first buffered
  event it read before the fetch) or the periodic refresh.
\<close>

datatype SyncTask = Bootstrapping nat DepthUpdateEvent | Refreshing

text \<open>
  The tracker's fields. A book is a \<^verbatim>\<open>Map<string, number>\<close>: an association list in
  insertion order. \<open>wsOpen\<close> stands for \<^verbatim>\<open>this.ws != null\<close>; \<open>ratio\<close> and \<open>depthWindowBps\<close>
  are the two options the modelled functions read (\<open>None\<close> when not configured). Timers,
  listeners and the logger are not represented.
\<close>

record BinanceDepthTracker =
  symbol :: string
  ratio :: "number option"
  depthWindowBps :: "number option"
  wsOpen :: bool
  stopped :: bool
  started :: bool
  snapshot :: "BinanceDepthSnapshot option"
  lastMessageTime :: int
  connectionState :: BinanceConnectionState
  bidBook :: "(string \<times> number) list"
  askBook :: "(string \<times> number) list"
  localLastUpdateId :: int
  orderBookReady :: bool
  eventBuffer :: "DepthUpdateEvent list"
  syncInFlight :: "SyncTask option"
  lastEventAt :: int
  lastSnapshotAt :: int
  lastRestSyncAt :: int
  restConsecutiveFailures :: nat
  restLastError :: "string option"

definition newTracker :: "string \<Rightarrow> number option \<Rightarrow> number option \<Rightarrow> BinanceDepthTracker" where
  "newTracker s r w =
     \<lparr> symbol = s, ratio = r, depthWindowBps = w, wsOpen = False, stopped = False,
       started = False, snapshot = None, lastMessageTime = 0, connectionState = Disconnected,
       bidBook = [], askBook = [], localLastUpdateId = 0, orderBookReady = False,
       eventBuffer = [], syncInFlight = None, lastEventAt = 0, lastSnapshotAt = 0,
       lastRestSyncAt = 0, restConsecutiveFailures = 0, restLastError = None \<rparr>"

definition DATA_STALE_THRESHOLD_MS :: int where "DATA_STALE_THRESHOLD_MS = 5000"
definition HEARTBEAT_TIMEOUT_MS :: int where "HEARTBEAT_TIMEOUT_MS = 5 * 60 * 1000"
definition DEFAULT_DEPTH_WINDOW_BPS :: number where "DEFAULT_DEPTH_WINDOW_BPS = Num 9"
definition DEFAULT_IMBALANCE_RATIO :: number where "DEFAULT_IMBALANCE_RATIO = Num 2"
definition MAX_BUFFER_SIZE :: nat where "MAX_BUFFER_SIZE = 5000"
definition SYNC_SNAPSHOT_MAX_RETRIES :: nat where "SYNC_SNAPSHOT_MAX_RETRIES = 5"
definition REST_FAILURE_DEFENSE_THRESHOLD :: nat where "REST_FAILURE_DEFENSE_THRESHOLD = 1"

subsection \<open>Health\<close>

definition isDataStale :: "int \<Rightarrow> BinanceDepthTracker \<Rightarrow> bool" where
  "isDataStale now t =
     (case snapshot t of None \<Rightarrow> True
      | Some s \<Rightarrow> now - updatedAt s > DATA_STALE_THRESHOLD_MS)"

fun connectionStateName :: "BinanceConnectionState \<Rightarrow> string" where
  "connectionStateName Connected = ''connected''"
| "connectionStateName Disconnected = ''disconnected''"
| "connectionStateName Stale = ''stale''"

definition getHealth :: "int \<Rightarrow> BinanceDepthTracker \<Rightarrow> BinanceDepthHealth" where
  "getHealth now t =
     (if \<not> started t then
        \<lparr> healthStarted = False, connected = False, healthOrderBookReady = False,
          restHealthy = True, healthy = True, reason = None,
          healthLastEventAt = lastEventAt t, healthLastSnapshotAt = lastSnapshotAt t,
          healthLastRestSyncAt = lastRestSyncAt t,
          healthLocalLastUpdateId = localLastUpdateId t \<rparr>
      else
        (let restOk = (restConsecutiveFailures t < REST_FAILURE_DEFENSE_THRESHOLD);
             why =
               (if connectionState t \<noteq> Connected
                  then Some (''ws_'' @ connectionStateName (connectionState t))
                else if \<not> orderBookReady t then Some ''orderbook_not_ready''
                else if isDataStale now t then Some ''orderbook_stale''
                else if \<not> restOk
                  then (case restLastError t of
                          Some e \<Rightarrow>
                            if e = [] then Some ''rest_sync_failed''
                            else Some (''rest_sync_failed:'' @ e)
                        | None \<Rightarrow> Some ''rest_sync_failed'')
                else None)
         in \<lparr> healthStarted = True, connected = (connectionState t = Connected),
              healthOrderBookReady = orderBookReady t, restHealthy = restOk,
              healthy = (why = None), reason = why,
              healthLastEventAt = lastEventAt t, healthLastSnapshotAt = lastSnapshotAt t,
              healthLastRestSyncAt = lastRestSyncAt t,
              healthLocalLastUpdateId = localLastUpdateId t \<rparr>))"

definition isHealthy :: "int \<Rightarrow> BinanceDepthTracker \<Rightarrow> bool" where
  "isHealthy now t = healthy (getHealth now t)"

subsection \<open>The book\<close>

text \<open>
  \<^verbatim>\<open>applyLevels\<close>: a level with an empty, non-finite or non-positive price, or a non-finite
  or negative quantity, is skipped; quantity zero deletes the price; any other quantity is
  stored under the price string (\<^verbatim>\<open>Map.set\<close> keeps the position of a key already present).
\<close>

fun applyLevels ::
  "(string \<Rightarrow> number) \<Rightarrow> (string \<times> number) list \<Rightarrow> AsterDepthLevel list
     \<Rightarrow> (string \<times> number) list" where
  "applyLevels num book [] = book"
| "applyLevels num book ((priceRaw, qtyRaw) # levels) =
     (let price = num priceRaw; qty = num qtyRaw
      in if priceRaw = [] \<or> \<not> isFinite price \<or> num_le price (Num 0)
           then applyLevels num book levels
         else if \<not> isFinite qty \<or> num_lt qty (Num 0)
           then applyLevels num book levels
         else if strict_eq qty (Num 0)
           then applyLevels num (AList.delete priceRaw book) levels
         else applyLevels num (AList.update priceRaw qty book) levels)"

datatype BookSide = Bid | Ask

fun findBestLoop ::
  "(string \<Rightarrow> number) \<Rightarrow> BookSide \<Rightarrow> number option \<Rightarrow> (string \<times> number) list
     \<Rightarrow> number option" where
  "findBestLoop num side best [] = best"
| "findBestLoop num side best ((priceRaw, qty) # rest) =
     (if \<not> isFinite qty \<or> num_le qty (Num 0) then findBestLoop num side best rest
      else
        (let price = num priceRaw
         in if \<not> isFinite price \<or> num_le price (Num 0) then findBestLoop num side best rest
            else (case best of
                    None \<Rightarrow> findBestLoop num side (Some price) rest
                  | Some b \<Rightarrow>
                      if side = Bid
                      then (if num_gt price b then findBestLoop num side (Some price) rest
                            else findBestLoop num side best rest)
                      else if num_lt price b then findBestLoop num side (Some price) rest
                      else findBestLoop num side best rest)))"

definition findBestPrice ::
  "(string \<Rightarrow> number) \<Rightarrow> (string \<times> number) list \<Rightarrow> BookSide \<Rightarrow> number option" where
  "findBestPrice num book side = findBestLoop num side None book"

text \<open>The two window sums of \<^verbatim>\<open>emitDepthSnapshot\<close>.\<close>

fun sumBids ::
  "FloatOps \<Rightarrow> (string \<Rightarrow> number) \<Rightarrow> number \<Rightarrow> number \<Rightarrow> (string \<times> number) list \<Rightarrow> number" where
  "sumBids ops num bidWindowMin acc [] = acc"
| "sumBids ops num bidWindowMin acc ((priceRaw, qty) # rest) =
     (let price = num priceRaw
      in if \<not> isFinite price \<or> num_lt price bidWindowMin
         then sumBids ops num bidWindowMin acc rest
         else sumBids ops num bidWindowMin (fadd ops acc qty) rest)"

fun sumAsks ::
  "FloatOps \<Rightarrow> (string \<Rightarrow> number) \<Rightarrow> number \<Rightarrow> number \<Rightarrow> (string \<times> number) list \<Rightarrow> number" where
  "sumAsks ops num askWindowMax acc [] = acc"
| "sumAsks ops num askWindowMax acc ((priceRaw, qty) # rest) =
     (let price = num priceRaw
      in if \<not> isFinite price \<or> num_gt price askWindowMax
         then sumAsks ops num askWindowMax acc rest
         else sumAsks ops num askWindowMax (fadd ops acc qty) rest)"

text \<open>The effective ratio and window of a tracker: the option or its default, bounded below.\<close>

definition effectiveRatio :: "BinanceDepthTracker \<Rightarrow> number" where
  "effectiveRatio t =
     num_max (Num (101 / 100))
       (case ratio t of None \<Rightarrow> DEFAULT_IMBALANCE_RATIO | Some r \<Rightarrow> r)"

definition effectiveWindowBps :: "BinanceDepthTracker \<Rightarrow> number" where
  "effectiveWindowBps t =
     num_max (Num 1)
       (case depthWindowBps t of None \<Rightarrow> DEFAULT_DEPTH_WINDOW_BPS | Some w \<Rightarrow> w)"

text \<open>
  \<^verbatim>\<open>emitDepthSnapshot\<close> in three parts. \<open>summarize\<close> is its tail: the flags, the imbalance
  and the snapshot record, from the two sums and the ratio. \<open>depthSnapshotOf\<close> is the
  snapshot the function builds, or \<open>None\<close> when it returns early (a side without a best
  price, a non-positive best price, or the best ask below the best bid).
  \<open>emitDepthSnapshot\<close> stores the snapshot; each listener receives a copy of it.
\<close>

definition summarize ::
  "FloatOps \<Rightarrow> string \<Rightarrow> int \<Rightarrow> number \<Rightarrow> int \<Rightarrow> number \<Rightarrow> number \<Rightarrow> number \<Rightarrow> BinanceDepthSnapshot" where
  "summarize ops name now window lastId r buys sells =
     \<lparr> snapSymbol = name, buySum = buys, sellSum = sells,
       skipBuySide = (strict_eq buys (Num 0) \<or> num_gt sells (fmul ops buys r)),
       skipSellSide = (strict_eq sells (Num 0) \<or> num_gt buys (fmul ops sells r)),
       imbalance =
         (if num_gt buys (fmul ops sells r) then buy_dominant
          else if num_gt sells (fmul ops buys r) then sell_dominant
          else balanced),
       updatedAt = now, windowBps = window, snapLocalLastUpdateId = lastId \<rparr>"

definition depthSnapshotOf ::
  "FloatOps \<Rightarrow> (string \<Rightarrow> number) \<Rightarrow> int \<Rightarrow> BinanceDepthTracker \<Rightarrow> BinanceDepthSnapshot option" where
  "depthSnapshotOf ops num now t =
     (case (findBestPrice num (bidBook t) Bid, findBestPrice num (askBook t) Ask) of
        (Some bestBid, Some bestAsk) \<Rightarrow>
          if num_le bestBid (Num 0) \<or> num_le bestAsk (Num 0) \<or> num_lt bestAsk bestBid then None
          else
            (let window = effectiveWindowBps t;
                 bidWindowMin =
                   fmul ops bestBid (fsub ops (Num 1) (fdiv ops window (Num 10000)));
                 askWindowMax =
                   fmul ops bestAsk (fadd ops (Num 1) (fdiv ops window (Num 10000)))
             in Some (summarize ops (symbol t) now window (localLastUpdateId t) (effectiveRatio t)
                        (sumBids ops num bidWindowMin (Num 0) (bidBook t))
                        (sumAsks ops num askWindowMax (Num 0) (askBook t))))
      | _ \<Rightarrow> None)"

definition emitDepthSnapshot ::
  "FloatOps \<Rightarrow> (string \<Rightarrow> number) \<Rightarrow> int \<Rightarrow> BinanceDepthTracker \<Rightarrow> BinanceDepthTracker" where
  "emitDepthSnapshot ops num now t =
     (case depthSnapshotOf ops num now t of None \<Rightarrow> t | Some s \<Rightarrow> t\<lparr> snapshot := Some s \<rparr>)"

subsection \<open>Diff events\<close>

text \<open>
  \<^verbatim>\<open>applyDepthEvent\<close> returns its boolean with the tracker. \<^verbatim>\<open>!this.localLastUpdateId\<close>
  holds for the identifier 0.
\<close>

definition applyDepthEvent ::
  "(string \<Rightarrow> number) \<Rightarrow> BinanceDepthTracker \<Rightarrow> DepthUpdateEvent
     \<Rightarrow> bool \<times> BinanceDepthTracker" where
  "applyDepthEvent num t event =
     (if localLastUpdateId t = 0 then (False, t)
      else if ev_u event < localLastUpdateId t then (True, t)
      else if ev_U event > localLastUpdateId t + 1 then (False, t)
      else (True, t\<lparr> bidBook := applyLevels num (bidBook t) (ev_bids event),
                     askBook := applyLevels num (askBook t) (ev_asks event),
                     localLastUpdateId := ev_u event \<rparr>))"

text \<open>The loop over the buffered events of the bootstrap: it stops at the first failure.\<close>

fun applyBuffered ::
  "(string \<Rightarrow> number) \<Rightarrow> BinanceDepthTracker \<Rightarrow> DepthUpdateEvent list
     \<Rightarrow> bool \<times> BinanceDepthTracker" where
  "applyBuffered num t [] = (True, t)"
| "applyBuffered num t (event # rest) =
     (case applyDepthEvent num t event of
        (False, t') \<Rightarrow> (False, t')
      | (True, t') \<Rightarrow> applyBuffered num t' rest)"

definition resetOrderBook ::
  "(string \<Rightarrow> number) \<Rightarrow> int \<Rightarrow> BinanceDepthTracker \<Rightarrow> DepthSnapshotResponse
     \<Rightarrow> BinanceDepthTracker" where
  "resetOrderBook num now t snap =
     t\<lparr> bidBook := applyLevels num [] (snap_bids snap),
        askBook := applyLevels num [] (snap_asks snap),
        localLastUpdateId := lastUpdateId snap,
        lastSnapshotAt := now \<rparr>"

subsection \<open>Synchronisation with the REST snapshot\<close>

text \<open>
  The head of one bootstrap attempt, up to its \<^verbatim>\<open>await\<close>: past the last attempt the loop
  ends, with an empty buffer the routine returns, otherwise the fetch is awaited.
\<close>

definition beginAttempt :: "BinanceDepthTracker \<Rightarrow> nat \<Rightarrow> BinanceDepthTracker" where
  "beginAttempt t attempt =
     (if attempt \<ge> SYNC_SNAPSHOT_MAX_RETRIES then t\<lparr> syncInFlight := None \<rparr>
      else (case eventBuffer t of
              [] \<Rightarrow> t\<lparr> syncInFlight := None \<rparr>
            | firstBuffered # _ \<Rightarrow> t\<lparr> syncInFlight := Some (Bootstrapping attempt firstBuffered) \<rparr>))"

definition ensureSynced :: "BinanceDepthTracker \<Rightarrow> BinanceDepthTracker" where
  "ensureSynced t =
     (if syncInFlight t \<noteq> None \<or> stopped t \<or> \<not> started t then t
      else if \<not> orderBookReady t then beginAttempt t 0
      else t\<lparr> syncInFlight := Some Refreshing \<rparr>)"

text \<open>
  \<^verbatim>\<open>fetchDepthSnapshot\<close>: the outcome of the request is an error message or the decoded
  response; a response whose \<^verbatim>\<open>lastUpdateId\<close> is not positive counts as a failure.
\<close>

definition fetchDepthSnapshot ::
  "int \<Rightarrow> BinanceDepthTracker \<Rightarrow> string + DepthSnapshotResponse
     \<Rightarrow> BinanceDepthTracker \<times> DepthSnapshotResponse option" where
  "fetchDepthSnapshot now t response =
     (let failed = (\<lambda>msg. (t\<lparr> restConsecutiveFailures := restConsecutiveFailures t + 1,
                               restLastError := Some msg \<rparr>, None))
      in case response of
           Inl msg \<Rightarrow> failed msg
         | Inr snap \<Rightarrow>
             if lastUpdateId snap \<le> 0 then failed ''invalid lastUpdateId''
             else (t\<lparr> lastRestSyncAt := now, restConsecutiveFailures := 0,
                      restLastError := None \<rparr>, Some snap))"

text \<open>The rest of a bootstrap attempt, from the return of the fetch.\<close>

definition bootstrapOrderBookFromSnapshot ::
  "FloatOps \<Rightarrow> (string \<Rightarrow> number) \<Rightarrow> int \<Rightarrow> BinanceDepthTracker \<Rightarrow> nat \<Rightarrow> DepthUpdateEvent
     \<Rightarrow> string + DepthSnapshotResponse \<Rightarrow> BinanceDepthTracker" where
  "bootstrapOrderBookFromSnapshot ops num now t attempt firstBuffered response =
     (case fetchDepthSnapshot now t response of
        (t1, None) \<Rightarrow> t1\<lparr> syncInFlight := None \<rparr>
      | (t1, Some snap) \<Rightarrow>
          if lastUpdateId snap < ev_U firstBuffered then beginAttempt t1 (attempt + 1)
          else
            (let t2 = resetOrderBook num now t1 snap;
                 buffered = filter (\<lambda>event. ev_u event > lastUpdateId snap) (eventBuffer t2);
                 ready = (\<lambda>t3. emitDepthSnapshot ops num now
                           (t3\<lparr> orderBookReady := True, eventBuffer := [],
                                syncInFlight := None \<rparr>))
             in case buffered of
                  [] \<Rightarrow> ready t2
                | nextEvent # _ \<Rightarrow>
                    if ev_U nextEvent > lastUpdateId snap + 1 \<or> ev_u nextEvent < lastUpdateId snap + 1
                    then beginAttempt t2 (attempt + 1)
                    else (case applyBuffered num t2 buffered of
                            (False, t3) \<Rightarrow> beginAttempt t3 (attempt + 1)
                          | (True, t3) \<Rightarrow> ready t3)))"

definition refreshOrderBookFromSnapshot ::
  "FloatOps \<Rightarrow> (string \<Rightarrow> number) \<Rightarrow> int \<Rightarrow> BinanceDepthTracker \<Rightarrow> string + DepthSnapshotResponse
     \<Rightarrow> BinanceDepthTracker" where
  "refreshOrderBookFromSnapshot ops num now t response =
     (case fetchDepthSnapshot now t response of
        (t1, None) \<Rightarrow> t1\<lparr> syncInFlight := None \<rparr>
      | (t1, Some snap) \<Rightarrow>
          if lastUpdateId snap < localLastUpdateId t1 then t1\<lparr> syncInFlight := None \<rparr>
          else emitDepthSnapshot ops num now
                 ((resetOrderBook num now t1 snap)
                    \<lparr> orderBookReady := True, syncInFlight := None \<rparr>))"

text \<open>The return of the outstanding fetch resumes whichever routine awaits it.\<close>

definition fetchDone ::
  "FloatOps \<Rightarrow> (string \<Rightarrow> number) \<Rightarrow> int \<Rightarrow> BinanceDepthTracker \<Rightarrow> string + DepthSnapshotResponse
     \<Rightarrow> BinanceDepthTracker" where
  "fetchDone ops num now t response =
     (case syncInFlight t of
        None \<Rightarrow> t
      | Some (Bootstrapping attempt firstBuffered) \<Rightarrow>
          bootstrapOrderBookFromSnapshot ops num now t attempt firstBuffered response
      | Some Refreshing \<Rightarrow> refreshOrderBookFromSnapshot ops num now t response)"

subsection \<open>Stream handlers and timers\<close>

text \<open>
  \<^verbatim>\<open>handlePayload\<close> receives what \<^verbatim>\<open>parseDepthEvent\<close> made of the message: \<open>None\<close> when it
  is not a depth update.
\<close>

definition handlePayload ::
  "FloatOps \<Rightarrow> (string \<Rightarrow> number) \<Rightarrow> int \<Rightarrow> BinanceDepthTracker \<Rightarrow> DepthUpdateEvent option
     \<Rightarrow> BinanceDepthTracker" where
  "handlePayload ops num now t parsed =
     (case parsed of
        None \<Rightarrow> t
      | Some event \<Rightarrow>
          if \<not> orderBookReady t then
            (let buffer = eventBuffer t @ [event]
             in ensureSynced
                  (t\<lparr> eventBuffer :=
                        (if length buffer > MAX_BUFFER_SIZE
                         then drop (length buffer - MAX_BUFFER_SIZE) buffer else buffer) \<rparr>))
          else
            (case applyDepthEvent num t event of
               (False, t1) \<Rightarrow> ensureSynced (t1\<lparr> orderBookReady := False, eventBuffer := [event] \<rparr>)
             | (True, t1) \<Rightarrow> emitDepthSnapshot ops num now t1))"

definition handleMessage ::
  "FloatOps \<Rightarrow> (string \<Rightarrow> number) \<Rightarrow> int \<Rightarrow> BinanceDepthTracker \<Rightarrow> DepthUpdateEvent option
     \<Rightarrow> BinanceDepthTracker" where
  "handleMessage ops num now t parsed =
     handlePayload ops num now
       (t\<lparr> lastMessageTime := now, lastEventAt := now,
           connectionState := (if connectionState t = Stale then Connected
                               else connectionState t) \<rparr>)
       parsed"

definition handleOpen :: "int \<Rightarrow> BinanceDepthTracker \<Rightarrow> BinanceDepthTracker" where
  "handleOpen now t =
     t\<lparr> lastMessageTime := now, lastEventAt := now, orderBookReady := False,
        eventBuffer := [], connectionState := Connected \<rparr>"

definition handleClose :: "BinanceDepthTracker \<Rightarrow> BinanceDepthTracker" where
  "handleClose t =
     t\<lparr> wsOpen := False, orderBookReady := False, eventBuffer := [],
        connectionState := Disconnected \<rparr>"

definition forceReconnect :: "BinanceDepthTracker \<Rightarrow> BinanceDepthTracker" where
  "forceReconnect t =
     t\<lparr> wsOpen := False, orderBookReady := False, eventBuffer := [],
        connectionState := Disconnected \<rparr>"

text \<open>The heartbeat check, on its interval timer.\<close>

definition heartbeatCheck :: "int \<Rightarrow> BinanceDepthTracker \<Rightarrow> BinanceDepthTracker" where
  "heartbeatCheck now t =
     (let elapsed = now - lastMessageTime t;
          t1 = (if elapsed > DATA_STALE_THRESHOLD_MS \<and> connectionState t = Connected
                then t\<lparr> connectionState := Stale \<rparr> else t)
      in if elapsed > HEARTBEAT_TIMEOUT_MS then forceReconnect t1 else t1)"

text \<open>The periodic refresh, on its interval timer.\<close>

definition refreshSyncTick :: "BinanceDepthTracker \<Rightarrow> BinanceDepthTracker" where
  "refreshSyncTick t =
     (if \<not> started t \<or> stopped t \<or> \<not> orderBookReady t then t else ensureSynced t)"

text \<open>
  \<^verbatim>\<open>connect\<close> creates the socket unless one exists or the tracker is stopped; \<^verbatim>\<open>start\<close>
  calls it, and so does the reconnect timer. \<^verbatim>\<open>stop\<close> runs \<^verbatim>\<open>cleanup\<close>.
\<close>

definition connect :: "BinanceDepthTracker \<Rightarrow> BinanceDepthTracker" where
  "connect t = (if wsOpen t \<or> stopped t then t else t\<lparr> wsOpen := True \<rparr>)"

definition start :: "BinanceDepthTracker \<Rightarrow> BinanceDepthTracker" where
  "start t = connect (t\<lparr> started := True, stopped := False \<rparr>)"

definition stop :: "BinanceDepthTracker \<Rightarrow> BinanceDepthTracker" where
  "stop t = t\<lparr> started := False, stopped := True, wsOpen := False,
               connectionState := Disconnected \<rparr>"

text \<open>Everything that can happen to a tracker, and a run of such happenings.\<close>

datatype TrackerOp =
    Start
  | Stop
  | WsOpen int
  | WsClose
  | WsMessage int "DepthUpdateEvent option"
  | FetchDone int "string + DepthSnapshotResponse"
  | HeartbeatTimer int
  | RefreshTimer
  | ReconnectTimer

fun trackerStep ::
  "FloatOps \<Rightarrow> (string \<Rightarrow> number) \<Rightarrow> BinanceDepthTracker \<Rightarrow> TrackerOp \<Rightarrow> BinanceDepthTracker" where
  "trackerStep ops num t Start = start t"
| "trackerStep ops num t Stop = stop t"
| "trackerStep ops num t (WsOpen now) = handleOpen now t"
| "trackerStep ops num t WsClose = handleClose t"
| "trackerStep ops num t (WsMessage now parsed) = handleMessage ops num now t parsed"
| "trackerStep ops num t (FetchDone now response) = fetchDone ops num now t response"
| "trackerStep ops num t (HeartbeatTimer now) = heartbeatCheck now t"
| "trackerStep ops num t RefreshTimer = refreshSyncTick t"
| "trackerStep ops num t ReconnectTimer = connect t"

definition runTracker ::
  "FloatOps \<Rightarrow> (string \<Rightarrow> number) \<Rightarrow> BinanceDepthTracker \<Rightarrow> TrackerOp list \<Rightarrow> BinanceDepthTracker" where
  "runTracker ops num t happenings = foldl (trackerStep ops num) t happenings"

section \<open>Swing engine\<close>

subsection \<open>Data\<close>

text \<open>
  The exchange types, with the fields the engine reads. \<open>orderActive\<close> stands for
  \<^verbatim>\<open>isOrderActiveStatus(order.status)\<close>, and the \<open>position\<close> of an account snapshot for
  \<^verbatim>\<open>getPosition(snapshot, config.symbol)\<close>: both helpers belong to modules outside the
  sources at hand.
\<close>

datatype OrderSide = BUY | SELL

record PositionSnapshot =
  posAmt :: number
  entryPrice :: number
  markPrice :: number
  unrealizedProfit :: number

record AsterOrder =
  orderId :: string
  orderSymbol :: string
  orderSide :: OrderSide
  orderType :: string
  stopPrice :: string
  orderActive :: bool

record AsterDepth =
  bids :: "AsterDepthLevel list"
  asks :: "AsterDepthLevel list"

record AsterTicker =
  lastPrice :: string

record AsterAccountSnapshot =
  marketType :: string
  position :: PositionSnapshot

record BinanceRsiSnapshot =
  snapRsi :: "number option"
  isStable :: bool

text \<open>The engine's configuration extends the one of the swing logic.\<close>

record SwingConfig = SwingLogicConfig +
  tradeSymbol :: string
  tradeAmount :: number
  stopLossPct :: number
  maxCloseSlippagePct :: number
  priceTick :: number
  qtyStep :: number

record StopAttempt =
  attemptSide :: "OrderSide option"
  attemptPrice :: "number option"
  attemptAt :: int

text \<open>
  What the engine sends out: the three operations of the order coordinator (side, then
  stop price where there is one, then quantity; the slippage guard and the precision passed
  along are left out), and a snapshot to its listeners, of which the readiness, the
  disabled flag and the error are kept. The coordinator's own state (locks, timers, pending
  orders) belongs to a module outside the sources at hand and is not represented.
\<close>

datatype Request =
    PlaceMarketOrder OrderSide number
  | MarketClose OrderSide number
  | PlaceStopLossOrder OrderSide number number
  | EmitUpdate bool bool "string option"

text \<open>How a call to the coordinator ends: it returns, or throws (an unknown-order error or another one).\<close>

datatype CallOutcome = Returned | ThrewUnknownOrder string | Threw string

datatype RateDecision = Run | Skip | Paused

record SwingEngine =
  config :: SwingConfig
  accountSnapshot :: "AsterAccountSnapshot option"
  openOrders :: "AsterOrder list"
  depthSnapshot :: "AsterDepth option"
  tickerSnapshot :: "AsterTicker option"
  binanceSnapshot :: BinanceRsiSnapshot
  processing :: bool
  disabled :: bool
  lastError :: "string option"
  ordersSnapshotReady :: bool
  swingState :: SwingState
  lastStopAttempt :: StopAttempt
  tradeLog :: "(string \<times> string) list"
  requests :: "Request list"

text \<open>
  What one tick takes from outside the engine: the decision of the rate-limit controller,
  the clock, the result of \<^verbatim>\<open>computePositionPnl\<close>, and how each coordinator call ends.
\<close>

record TickInput =
  decision :: RateDecision
  tickNow :: int
  tickPnl :: number
  outcome :: "Request \<Rightarrow> CallOutcome"

text \<open>The constant \<^verbatim>\<open>EPS = 1e-5\<close> of the engine.\<close>

definition ENGINE_EPS :: number where
  "ENGINE_EPS = Num (1 / 100000)"

definition newEngine :: "SwingConfig \<Rightarrow> SwingEngine" where
  "newEngine c =
     \<lparr> config = c, accountSnapshot = None, openOrders = [], depthSnapshot = None,
       tickerSnapshot = None, binanceSnapshot = \<lparr> snapRsi = None, isStable = False \<rparr>,
       processing = False, disabled = False, lastError = None, ordersSnapshotReady = False,
       swingState = createInitialSwingState,
       lastStopAttempt = \<lparr> attemptSide = None, attemptPrice = None, attemptAt = 0 \<rparr>,
       tradeLog = [], requests = [] \<rparr>"

subsection \<open>Prices\<close>

text \<open>\<^verbatim>\<open>Number(x)\<close> of a string that may be missing: \<^verbatim>\<open>Number(undefined)\<close> is \<^verbatim>\<open>NaN\<close>.\<close>

definition numberOf :: "(string \<Rightarrow> number) \<Rightarrow> string option \<Rightarrow> number" where
  "numberOf num x = (case x of None \<Rightarrow> NaN | Some s \<Rightarrow> num s)"

definition finiteOrNull :: "number \<Rightarrow> number option" where
  "finiteOrNull n = (if isFinite n then Some n else None)"

definition firstPrice :: "AsterDepthLevel list \<Rightarrow> string option" where
  "firstPrice levels = (case levels of [] \<Rightarrow> None | level # _ \<Rightarrow> Some (fst level))"

definition getTopPrices ::
  "(string \<Rightarrow> number) \<Rightarrow> AsterDepth option \<Rightarrow> number option \<times> number option" where
  "getTopPrices num depth =
     (case depth of
        None \<Rightarrow> (None, None)
      | Some d \<Rightarrow> (finiteOrNull (numberOf num (firstPrice (bids d))),
                   finiteOrNull (numberOf num (firstPrice (asks d)))))"

definition getMidOrLast ::
  "FloatOps \<Rightarrow> (string \<Rightarrow> number) \<Rightarrow> AsterDepth option \<Rightarrow> AsterTicker option \<Rightarrow> number option" where
  "getMidOrLast ops num depth ticker =
     (case getTopPrices num depth of
        (Some topBid, Some topAsk) \<Rightarrow> Some (fdiv ops (fadd ops topBid topAsk) (Num 2))
      | _ \<Rightarrow> finiteOrNull (numberOf num (map_option lastPrice ticker)))"

definition getReferencePrice ::
  "FloatOps \<Rightarrow> (string \<Rightarrow> number) \<Rightarrow> SwingEngine \<Rightarrow> number option" where
  "getReferencePrice ops num e =
     (case getMidOrLast ops num (depthSnapshot e) (tickerSnapshot e) of
        Some p \<Rightarrow> Some p
      | None \<Rightarrow> map_option (\<lambda>t. num (lastPrice t)) (tickerSnapshot e))"

subsection \<open>Snapshots and subscriptions\<close>

definition isReady :: "SwingEngine \<Rightarrow> bool" where
  "isReady e =
     (accountSnapshot e \<noteq> None \<and> tickerSnapshot e \<noteq> None \<and> depthSnapshot e \<noteq> None \<and>
      ordersSnapshotReady e \<and> isStable (binanceSnapshot e) \<and> snapRsi (binanceSnapshot e) \<noteq> None)"

definition emitUpdate :: "SwingEngine \<Rightarrow> SwingEngine" where
  "emitUpdate e =
     e\<lparr> requests := requests e @ [EmitUpdate (isReady e \<and> \<not> disabled e) (disabled e) (lastError e)] \<rparr>"

definition spotError :: string where
  "spotError = ''Swing strategy requires perp/margin for shorting; spot accounts cannot short.''"

text \<open>The four subscription callbacks of \<^verbatim>\<open>bootstrap\<close>, and the RSI tracker's.\<close>

definition onAccount :: "SwingEngine \<Rightarrow> AsterAccountSnapshot \<Rightarrow> SwingEngine" where
  "onAccount e snap =
     (let e1 = e\<lparr> accountSnapshot := Some snap \<rparr>;
          e2 = (if marketType snap = ''spot'' \<and>
                   (direction (config e1) = Short \<or> direction (config e1) = Both)
                then (if \<not> disabled e1
                      then e1\<lparr> disabled := True, lastError := Some spotError,
                               tradeLog := tradeLog e1 @ [(''error'', spotError)] \<rparr>
                      else e1)
                else e1)
      in emitUpdate e2)"

definition onOrders :: "SwingEngine \<Rightarrow> AsterOrder list \<Rightarrow> SwingEngine" where
  "onOrders e orders =
     emitUpdate
       (e\<lparr> openOrders :=
             filter (\<lambda>order. orderType order \<noteq> ''MARKET'' \<and>
                              orderSymbol order = tradeSymbol (config e) \<and> orderActive order)
               orders,
           ordersSnapshotReady := True \<rparr>)"

definition onDepth :: "SwingEngine \<Rightarrow> AsterDepth \<Rightarrow> SwingEngine" where
  "onDepth e depth = emitUpdate (e\<lparr> depthSnapshot := Some depth \<rparr>)"

definition onTicker :: "SwingEngine \<Rightarrow> AsterTicker \<Rightarrow> SwingEngine" where
  "onTicker e ticker = emitUpdate (e\<lparr> tickerSnapshot := Some ticker \<rparr>)"

definition onRsi :: "SwingEngine \<Rightarrow> BinanceRsiSnapshot \<Rightarrow> SwingEngine" where
  "onRsi e snap = emitUpdate (e\<lparr> binanceSnapshot := snap \<rparr>)"

text \<open>\<^verbatim>\<open>syncPrecision\<close>, when the exchange answers with a precision.\<close>

definition syncPrecision :: "FloatOps \<Rightarrow> SwingEngine \<Rightarrow> number \<Rightarrow> number \<Rightarrow> SwingEngine" where
  "syncPrecision ops e tick step =
     (let tiny = Num (1 / 1000000000000);
          c = config e;
          c1 = (if isFinite tick \<and> num_gt tick (Num 0) \<and>
                   num_gt (num_abs (fsub ops tick (priceTick c))) tiny
                then c\<lparr> priceTick := tick \<rparr> else c);
          c2 = (if isFinite step \<and> num_gt step (Num 0) \<and>
                   num_gt (num_abs (fsub ops step (qtyStep c1))) tiny
                then c1\<lparr> qtyStep := step \<rparr> else c1)
      in e\<lparr> config := c2 \<rparr>)"

subsection \<open>Orders\<close>

fun sideName :: "OrderSide \<Rightarrow> string" where
  "sideName BUY = ''BUY''"
| "sideName SELL = ''SELL''"

definition pushLog :: "string \<Rightarrow> string \<Rightarrow> SwingEngine \<Rightarrow> SwingEngine" where
  "pushLog kind detail e = e\<lparr> tradeLog := tradeLog e @ [(kind, detail)] \<rparr>"

definition send :: "Request \<Rightarrow> SwingEngine \<Rightarrow> SwingEngine" where
  "send r e = e\<lparr> requests := requests e @ [r] \<rparr>"

definition tryOpen :: "TickInput \<Rightarrow> SwingEngine \<Rightarrow> OrderSide \<Rightarrow> string \<Rightarrow> SwingEngine" where
  "tryOpen inp e side why =
     (case accountSnapshot e of
        None \<Rightarrow> e
      | Some account \<Rightarrow>
          if num_gt (num_abs (posAmt (position account))) ENGINE_EPS then e
          else
            (let r = PlaceMarketOrder side (tradeAmount (config e))
             in case outcome inp r of
                  Returned \<Rightarrow> pushLog ''open'' (why @ '': '' @ sideName side @ '' (market)'') (send r e)
                | ThrewUnknownOrder msg \<Rightarrow> pushLog ''error'' (''Open failed: '' @ msg) (send r e)
                | Threw msg \<Rightarrow> pushLog ''error'' (''Open failed: '' @ msg) (send r e)))"

definition tryClose :: "TickInput \<Rightarrow> SwingEngine \<Rightarrow> PositionSnapshot \<Rightarrow> string \<Rightarrow> SwingEngine" where
  "tryClose inp e pos why =
     (if num_le (num_abs (posAmt pos)) ENGINE_EPS then e
      else
        (let side = (if num_gt (posAmt pos) (Num 0) then SELL else BUY);
             r = MarketClose side (num_abs (posAmt pos))
         in case outcome inp r of
              Returned \<Rightarrow> pushLog ''close'' (why @ '': '' @ sideName side @ '' (market close)'') (send r e)
            | ThrewUnknownOrder msg \<Rightarrow> pushLog ''order'' ''Close skipped: order missing'' (send r e)
            | Threw msg \<Rightarrow> pushLog ''error'' (''Close failed: '' @ msg) (send r e)))"

subsection \<open>Stop-loss management\<close>

definition stopPriceOf :: "FloatOps \<Rightarrow> SwingConfig \<Rightarrow> PositionSnapshot \<Rightarrow> number" where
  "stopPriceOf ops c pos =
     (if num_gt (posAmt pos) (Num 0)
      then fmul ops (entryPrice pos) (fsub ops (Num 1) (num_max (Num 0) (stopLossPct c)))
      else fmul ops (entryPrice pos) (fadd ops (Num 1) (num_max (Num 0) (stopLossPct c))))"

definition tickOf :: "SwingConfig \<Rightarrow> number" where
  "tickOf c = num_max (Num (1 / 1000000000)) (priceTick c)"

definition isStopOrder :: "(string \<Rightarrow> number) \<Rightarrow> OrderSide \<Rightarrow> AsterOrder \<Rightarrow> bool" where
  "isStopOrder num stopSide order =
     (let hasStopPrice = (isFinite (num (stopPrice order)) \<and> num_gt (num (stopPrice order)) (Num 0))
      in orderSide order = stopSide \<and> (orderType order = ''STOP_MARKET'' \<or> hasStopPrice))"

definition handleStopLoss ::
  "FloatOps \<Rightarrow> (string \<Rightarrow> number) \<Rightarrow> TickInput \<Rightarrow> SwingEngine \<Rightarrow> PositionSnapshot \<Rightarrow> number option
     \<Rightarrow> SwingEngine" where
  "handleStopLoss ops num inp e pos referencePrice =
     (if \<not> num_gt (num_abs (posAmt pos)) ENGINE_EPS
      then e\<lparr> lastStopAttempt := \<lparr> attemptSide = None, attemptPrice = None, attemptAt = 0 \<rparr> \<rparr>
      else if \<not> (isFinite (entryPrice pos) \<and>
                  num_gt (num_abs (entryPrice pos)) (Num (1 / 100000000)))
      then e
      else
        (let long = num_gt (posAmt pos) (Num 0);
             stopSide = (if long then SELL else BUY);
             stop = stopPriceOf ops (config e) pos;
             tick = tickOf (config e);
             last = (case referencePrice of
                       Some p \<Rightarrow> p
                     | None \<Rightarrow> numberOf num (map_option lastPrice (tickerSnapshot e)));
             triggerKill =
               (if long then isFinite last \<and> num_le last (fadd ops stop tick)
                else isFinite last \<and> num_ge last (fsub ops stop tick))
         in if triggerKill then tryClose inp e pos ''Stop-loss kill-switch''
            else if list_ex (isStopOrder num stopSide) (openOrders e) then e
            else if attemptSide (lastStopAttempt e) = Some stopSide \<and>
                    (case attemptPrice (lastStopAttempt e) of
                       None \<Rightarrow> False
                     | Some p \<Rightarrow> num_lt (num_abs (fsub ops stop p)) tick) \<and>
                    tickNow inp - attemptAt (lastStopAttempt e) < 5000
            then e
            else
              (let r = PlaceStopLossOrder stopSide stop (num_abs (posAmt pos));
                   e1 = (send r e)\<lparr> lastStopAttempt :=
                           \<lparr> attemptSide = Some stopSide, attemptPrice = Some stop,
                             attemptAt = tickNow inp \<rparr> \<rparr>
               in case outcome inp r of
                    Returned \<Rightarrow> e1
                  | ThrewUnknownOrder msg \<Rightarrow>
                      pushLog ''error'' (''Failed to place stop-loss order: '' @ msg) e1
                  | Threw msg \<Rightarrow>
                      pushLog ''error'' (''Failed to place stop-loss order: '' @ msg) e1)))"

subsection \<open>The tick\<close>

fun perform :: "TickInput \<Rightarrow> PositionSnapshot \<Rightarrow> SwingEngine \<Rightarrow> SwingAction \<Rightarrow> SwingEngine" where
  "perform inp pos e (OPEN_SHORT why) = tryOpen inp e SELL why"
| "perform inp pos e (OPEN_LONG why) = tryOpen inp e BUY why"
| "perform inp pos e (CLOSE_POSITION why) = tryClose inp e pos why"

text \<open>
  One tick, run to its end. The session-volume accumulator and the bookkeeping of the
  rate-limit controller after the cycle are not represented.
\<close>

definition tick ::
  "FloatOps \<Rightarrow> (string \<Rightarrow> number) \<Rightarrow> TickInput \<Rightarrow> SwingEngine \<Rightarrow> SwingEngine" where
  "tick ops num inp e =
     (if processing e then e
      else (case decision inp of
              Paused \<Rightarrow> emitUpdate e
            | Skip \<Rightarrow> e
            | Run \<Rightarrow>
                if disabled e then emitUpdate e
                else if \<not> isReady e then emitUpdate e
                else
                  (case accountSnapshot e of
                     None \<Rightarrow> emitUpdate e
                   | Some account \<Rightarrow>
                       (let pos = position account;
                            price = getReferencePrice ops num e;
                            out = stepSwing (swingState e)
                                    (SwingLogicConfig.truncate (config e))
                                    \<lparr> rsi = snapRsi (binanceSnapshot e),
                                      positionAmt = posAmt pos, pnl = tickPnl inp \<rparr>;
                            e1 = e\<lparr> swingState := nextState out \<rparr>;
                            e2 = foldl (perform inp pos) e1 (actions out);
                            e3 = handleStopLoss ops num inp e2 pos price
                        in emitUpdate e3))))"

text \<open>Everything that can happen to an engine, and a run of such happenings.\<close>

datatype EngineOp =
    Account AsterAccountSnapshot
  | Orders "AsterOrder list"
  | Depth AsterDepth
  | Ticker AsterTicker
  | Rsi BinanceRsiSnapshot
  | Precision number number
  | Tick TickInput

fun engineStep ::
  "FloatOps \<Rightarrow> (string \<Rightarrow> number) \<Rightarrow> SwingEngine \<Rightarrow> EngineOp \<Rightarrow> SwingEngine" where
  "engineStep ops num e (Account snap) = onAccount e snap"
| "engineStep ops num e (Orders orders) = onOrders e orders"
| "engineStep ops num e (Depth depth) = onDepth e depth"
| "engineStep ops num e (Ticker ticker) = onTicker e ticker"
| "engineStep ops num e (Rsi snap) = onRsi e snap"
| "engineStep ops num e (Precision t s) = syncPrecision ops e t s"
| "engineStep ops num e (Tick inp) = tick ops num inp e"

definition runEngine ::
  "FloatOps \<Rightarrow> (string \<Rightarrow> number) \<Rightarrow> SwingEngine \<Rightarrow> EngineOp list \<Rightarrow> SwingEngine" where
  "runEngine ops num e happenings = foldl (engineStep ops num) e happenings"

text \<open>Whether a list of requests holds an order for the exchange (anything but a snapshot).\<close>

fun isOrderRequest :: "Request \<Rightarrow> bool" where
  "isOrderRequest (EmitUpdate _ _ _) = False"
| "isOrderRequest _ = True"

section \<open>Notions and sample data for the statements\<close>

text \<open>
  A list of events each of which takes the applying branch of \<^verbatim>\<open>applyDepthEvent\<close>, starting
  from the identifier \<open>lastId\<close>: no gap, and none ignored.
\<close>

fun appliedInOrder :: "int \<Rightarrow> DepthUpdateEvent list \<Rightarrow> bool" where
  "appliedInOrder lastId [] = True"
| "appliedInOrder lastId (event # rest) =
     (lastId \<noteq> 0 \<and> ev_U event \<le> lastId + 1 \<and> lastId \<le> ev_u event \<and>
      appliedInOrder (ev_u event) rest)"

text \<open>
  The happening is the return of a bootstrap's fetch with a snapshot whose identifier is
  below the tracker's.
\<close>

definition olderBootstrap :: "BinanceDepthTracker \<Rightarrow> TrackerOp \<Rightarrow> bool" where
  "olderBootstrap t op =
     (case (syncInFlight t, op) of
        (Some (Bootstrapping attempt firstBuffered), FetchDone now (Inr snap)) \<Rightarrow>
          lastUpdateId snap < localLastUpdateId t
      | _ \<Rightarrow> False)"

text \<open>The order requests among the requests sent so far.\<close>

definition ordersSent :: "SwingEngine \<Rightarrow> Request list" where
  "ordersSent e = filter isOrderRequest (requests e)"

text \<open>
  A run that ends ready with the best bid above the best ask, and a run that ends with a
  bootstrap awaiting its snapshot while the identifier is 105.
\<close>

definition crossedRun :: "TrackerOp list" where
  "crossedRun =
     [Start, WsOpen 0,
      WsMessage 1 (Some \<lparr> ev_U = 1, ev_u = 2, ev_bids = [(''101'', ''1'')], ev_asks = [] \<rparr>),
      FetchDone 2 (Inr \<lparr> lastUpdateId = 1, snap_bids = [(''99'', ''1'')],
                          snap_asks = [(''100'', ''1'')] \<rparr>)]"

definition olderRun :: "TrackerOp list" where
  "olderRun =
     [Start, WsOpen 0,
      WsMessage 1 (Some \<lparr> ev_U = 100, ev_u = 105, ev_bids = [], ev_asks = [] \<rparr>),
      FetchDone 2 (Inr \<lparr> lastUpdateId = 104, snap_bids = [], snap_asks = [] \<rparr>),
      WsClose, ReconnectTimer, WsOpen 10,
      WsMessage 11 (Some \<lparr> ev_U = 50, ev_u = 60, ev_bids = [], ev_asks = [] \<rparr>)]"

text \<open>Three events buffered while the first bootstrap awaits its snapshot.\<close>

definition bufferedRun :: "TrackerOp list" where
  "bufferedRun =
     [Start, WsOpen 0,
      WsMessage 1 (Some \<lparr> ev_U = 5, ev_u = 7, ev_bids = [], ev_asks = [] \<rparr>),
      WsMessage 2 (Some \<lparr> ev_U = 8, ev_u = 9, ev_bids = [], ev_asks = [] \<rparr>),
      WsMessage 3 (Some \<lparr> ev_U = 10, ev_u = 11, ev_bids = [], ev_asks = [] \<rparr>)]"

text \<open>Two trackers whose books differ by the exchange of the two quantities.\<close>

definition buyHeavy :: BinanceDepthTracker where
  "buyHeavy =
     (newTracker ''BTCUSDT'' None None)
       \<lparr> bidBook := [(''100'', Num 3)], askBook := [(''101'', Num 1)] \<rparr>"

definition sellHeavy :: BinanceDepthTracker where
  "sellHeavy =
     (newTracker ''BTCUSDT'' None None)
       \<lparr> bidBook := [(''100'', Num 1)], askBook := [(''101'', Num 3)] \<rparr>"

text \<open>A tracker whose best bid equals its best ask.\<close>

definition lockedBook :: BinanceDepthTracker where
  "lockedBook =
     (newTracker ''BTCUSDT'' None None)
       \<lparr> bidBook := [(''100'', Num 1)], askBook := [(''100'', Num 1)] \<rparr>"

text \<open>
  A map with some keys overwritten: \<open>F k = Some v\<close> sets key \<open>k\<close> to \<open>v\<close> (where \<open>v = None\<close>
  removes it), \<open>F k = None\<close> leaves it.
\<close>

definition overlay :: "('k \<Rightarrow> 'v option option) \<Rightarrow> ('k \<Rightarrow> 'v option) \<Rightarrow> 'k \<Rightarrow> 'v option" where
  "overlay F m k = (case F k of None \<Rightarrow> m k | Some v \<Rightarrow> v)"


text \<open>A ready, started tracker at identifier 100.\<close>

definition readyAt100 :: BinanceDepthTracker where
  "readyAt100 =
     (newTracker ''BTCUSDT'' None None)
       \<lparr> started := True, wsOpen := True, connectionState := Connected,
         localLastUpdateId := 100, orderBookReady := True \<rparr>"

text \<open>An engine configuration, a tick input and a spot account.\<close>

definition sampleConfig :: SwingConfig where
  "sampleConfig =
     \<lparr> direction = Short, rsiHigh = Num 70, rsiLow = Num 30, tradeSymbol = ''BTCUSDT'',
       tradeAmount = Num (1 / 1000), stopLossPct = Num (5 / 100),
       maxCloseSlippagePct = Num (5 / 100), priceTick = Num (1 / 10),
       qtyStep = Num (1 / 1000) \<rparr>"

definition sampleInput :: "RateDecision \<Rightarrow> TickInput" where
  "sampleInput d =
     \<lparr> decision = d, tickNow = 0, tickPnl = Num 0, outcome = (\<lambda>r. Returned) \<rparr>"

definition spotAccount :: AsterAccountSnapshot where
  "spotAccount =
     \<lparr> marketType = ''spot'',
       position = \<lparr> posAmt = Num 0, entryPrice = Num 0, markPrice = Num 0,
                    unrealizedProfit = Num 0 \<rparr> \<rparr>"

section \<open>Properties of the swing logic\<close>


lemma stepFlat_len: "length (snd (stepFlat state cfg r)) \<le> 1"
  by (simp add: stepFlat_def Let_def)

lemma stepShort_len: "length (snd (stepShort n prev cfg r p)) \<le> 1"
  by (simp add: stepShort_def Let_def)

lemma stepLong_len: "length (snd (stepLong n prev cfg r p)) \<le> 1"
  by (simp add: stepLong_def Let_def)

lemma stepSwing_len: "length (actions (stepSwing state cfg input)) \<le> 1"
  using stepFlat_len stepShort_len stepLong_len
  by (simp add: stepSwing_def actions_def Let_def split: option.splits)

lemma short_list_not_both:
  "length xs \<le> 1 \<Longrightarrow> a \<in> set xs \<Longrightarrow> b \<in> set xs \<Longrightarrow> a = b"
  by (cases xs) auto

text \<open>
  Claim C3. For every state, configuration and input, \<^verbatim>\<open>stepSwing\<close> returns at most one
  action; in particular never an \<^verbatim>\<open>OPEN_LONG\<close> together with an \<^verbatim>\<open>OPEN_SHORT\<close>, whatever
  the two thresholds are.
\<close>

theorem stepSwing_at_most_one_action:
  "length (actions (stepSwing state cfg input)) \<le> 1 \<and>
   \<not> ((\<exists>reason. OPEN_LONG reason \<in> set (actions (stepSwing state cfg input))) \<and>
      (\<exists>reason. OPEN_SHORT reason \<in> set (actions (stepSwing state cfg input))))"
proof -
  have len: "length (actions (stepSwing state cfg input)) \<le> 1"
    by (rule stepSwing_len)
  have "OPEN_LONG a \<noteq> OPEN_SHORT b" for a b by simp
  with len show ?thesis
    by (metis short_list_not_both)
qed

theorem stepSwing_at_most_one_action_witness:
  "actions (stepSwing
      \<lparr> prevRsi = Some (Num 71), armedShortEntry = True, armedShortExit = False,
        armedLongEntry = False, armedLongExit = False \<rparr>
      \<lparr> direction = Short, rsiHigh = Num 70, rsiLow = Num 30 \<rparr>
      \<lparr> rsi = Some (Num 69), positionAmt = Num 0, pnl = Num 0 \<rparr>)
    = [OPEN_SHORT ''RSI armed above high, then crossed below high'']"
  using stepSwing_at_most_one_action
    [of "\<lparr> prevRsi = Some (Num 71), armedShortEntry = True, armedShortExit = False,
        armedLongEntry = False, armedLongExit = False \<rparr>"
      "\<lparr> direction = Short, rsiHigh = Num 70, rsiLow = Num 30 \<rparr>"
      "\<lparr> rsi = Some (Num 69), positionAmt = Num 0, pnl = Num 0 \<rparr>"]
  by (simp add: stepSwing_def stepFlat_def actions_def EPS_def num_le_def num_ge_def num_gt_def Let_def)

























section \<open>Properties of the depth tracker\<close>

lemma readInteger_samples:
  "readInteger ''100'' = Num 100" "readInteger ''101'' = Num 101" "readInteger ''99'' = Num 99"
  "readInteger ''1'' = Num 1" "readInteger ''3'' = Num 3" "readInteger ''5'' = Num 5"
  by (simp_all add: readInteger_def digitValue_def)

lemmas tracker_defs =
  runTracker_def start_def stop_def connect_def handleOpen_def handleClose_def handleMessage_def
  handlePayload_def ensureSynced_def beginAttempt_def fetchDone_def
  bootstrapOrderBookFromSnapshot_def refreshOrderBookFromSnapshot_def fetchDepthSnapshot_def
  resetOrderBook_def applyDepthEvent_def emitDepthSnapshot_def depthSnapshotOf_def
  findBestPrice_def newTracker_def SYNC_SNAPSHOT_MAX_RETRIES_def MAX_BUFFER_SIZE_def
  num_le_def num_gt_def num_ge_def

lemma emitDepthSnapshot_fields:
  "bidBook (emitDepthSnapshot ops num now t) = bidBook t"
  "askBook (emitDepthSnapshot ops num now t) = askBook t"
  "localLastUpdateId (emitDepthSnapshot ops num now t) = localLastUpdateId t"
  "orderBookReady (emitDepthSnapshot ops num now t) = orderBookReady t"
  "eventBuffer (emitDepthSnapshot ops num now t) = eventBuffer t"
  "syncInFlight (emitDepthSnapshot ops num now t) = syncInFlight t"
  by (simp_all add: emitDepthSnapshot_def split: option.splits)

lemma beginAttempt_fields:
  "bidBook (beginAttempt t k) = bidBook t"
  "askBook (beginAttempt t k) = askBook t"
  "localLastUpdateId (beginAttempt t k) = localLastUpdateId t"
  "orderBookReady (beginAttempt t k) = orderBookReady t"
  "eventBuffer (beginAttempt t k) = eventBuffer t"
  by (simp_all add: beginAttempt_def split: list.splits)

lemma ensureSynced_fields:
  "bidBook (ensureSynced t) = bidBook t"
  "askBook (ensureSynced t) = askBook t"
  "localLastUpdateId (ensureSynced t) = localLastUpdateId t"
  "orderBookReady (ensureSynced t) = orderBookReady t"
  "eventBuffer (ensureSynced t) = eventBuffer t"
  by (simp_all add: ensureSynced_def beginAttempt_fields)

subsection \<open>Health of a tracker that is not running\<close>

text \<open>
  Claim C10. \<^verbatim>\<open>getHealth\<close> on a tracker that is not started, and on any tracker just
  stopped, reports healthy with no reason, not connected, book not ready and REST healthy,
  whatever the failure count, the staleness and the rest of the state are; a report that is
  not healthy comes from a started tracker.
\<close>

theorem getHealth_idle_is_healthy:
  "(\<not> started t \<longrightarrow>
      healthy (getHealth now t) \<and> reason (getHealth now t) = None \<and>
      \<not> connected (getHealth now t) \<and> \<not> healthOrderBookReady (getHealth now t) \<and>
      restHealthy (getHealth now t)) \<and>
   (healthy (getHealth now (stop t)) \<and> reason (getHealth now (stop t)) = None \<and>
      \<not> connected (getHealth now (stop t)) \<and> \<not> healthOrderBookReady (getHealth now (stop t)) \<and>
      restHealthy (getHealth now (stop t))) \<and>
   (\<not> healthy (getHealth now t) \<longrightarrow> started t \<and> healthStarted (getHealth now t))"
  by (simp add: getHealth_def stop_def Let_def)

theorem getHealth_idle_is_healthy_witness:
  "getHealth 999999
     ((newTracker ''BTCUSDT'' None None)
        \<lparr> connectionState := Stale, restConsecutiveFailures := 7,
          restLastError := Some ''HTTP 500'' \<rparr>)
   = \<lparr> healthStarted = False, connected = False, healthOrderBookReady = False,
       restHealthy = True, healthy = True, reason = None, healthLastEventAt = 0,
       healthLastSnapshotAt = 0, healthLastRestSyncAt = 0, healthLocalLastUpdateId = 0 \<rparr>"
  using getHealth_idle_is_healthy
    [of "(newTracker ''BTCUSDT'' None None)
        \<lparr> connectionState := Stale, restConsecutiveFailures := 7,
          restLastError := Some ''HTTP 500'' \<rparr>" 999999]
  by (simp add: getHealth_def newTracker_def)

subsection \<open>Applying one diff event\<close>

lemma overlay_twice: "overlay F (overlay F m) = overlay F m"
  by (rule ext) (simp add: overlay_def split: option.splits)

lemma applyLevels_content:
  "\<exists>F. \<forall>book. map_of (applyLevels num book levels) = overlay F (map_of book)"
proof (induction levels)
  case Nil
  let ?F = "\<lambda>k::string. None :: number option option"
  have "\<forall>book. map_of (applyLevels num book []) = overlay ?F (map_of book)"
    by (simp add: overlay_def fun_eq_iff)
  then show ?case by (rule exI [of _ ?F])
next
  case (Cons level levels)
  obtain p q where level: "level = (p, q)" by (cases level)
  from Cons.IH obtain F where
    F: "\<And>book. map_of (applyLevels num book levels) = overlay F (map_of book)"
    by blast
  let ?D = "\<lambda>k. case F k of None \<Rightarrow> (if k = p then Some None else None) | Some v \<Rightarrow> Some v"
  let ?U = "\<lambda>k. case F k of None \<Rightarrow> (if k = p then Some (Some (num q)) else None)
                 | Some v \<Rightarrow> Some v"
  have "(\<forall>book. applyLevels num book (level # levels) = applyLevels num book levels) \<or>
        (\<forall>book. applyLevels num book (level # levels) =
               applyLevels num (AList.delete p book) levels) \<or>
        (\<forall>book. applyLevels num book (level # levels) =
               applyLevels num (AList.update p (num q) book) levels)"
    unfolding level by (simp add: Let_def)
  then show ?case
  proof (elim disjE)
    assume "\<forall>book. applyLevels num book (level # levels) = applyLevels num book levels"
    with F have "\<forall>book. map_of (applyLevels num book (level # levels)) = overlay F (map_of book)"
      by simp
    then show ?thesis by (rule exI [of _ F])
  next
    assume "\<forall>book. applyLevels num book (level # levels) =
               applyLevels num (AList.delete p book) levels"
    with F have "\<forall>book. map_of (applyLevels num book (level # levels)) = overlay ?D (map_of book)"
      by (auto simp: overlay_def fun_eq_iff delete_conv' split: option.splits)
    then show ?thesis by (rule exI [of _ ?D])
  next
    assume "\<forall>book. applyLevels num book (level # levels) =
               applyLevels num (AList.update p (num q) book) levels"
    with F have "\<forall>book. map_of (applyLevels num book (level # levels)) = overlay ?U (map_of book)"
      by (auto simp: overlay_def fun_eq_iff update_conv' split: option.splits)
    then show ?thesis by (rule exI [of _ ?U])
  qed
qed

lemma applyLevels_again:
  "map_of (applyLevels num (applyLevels num book levels) levels) =
   map_of (applyLevels num book levels)"
proof -
  from applyLevels_content [of num levels] obtain F where
    F: "\<And>book. map_of (applyLevels num book levels) = overlay F (map_of book)"
    by blast
  show ?thesis
    by (simp add: F overlay_twice)
qed

lemma applyDepthEvent_again:
  "map_of (bidBook (snd (applyDepthEvent num (snd (applyDepthEvent num t ev)) ev))) =
     map_of (bidBook (snd (applyDepthEvent num t ev))) \<and>
   map_of (askBook (snd (applyDepthEvent num (snd (applyDepthEvent num t ev)) ev))) =
     map_of (askBook (snd (applyDepthEvent num t ev))) \<and>
   localLastUpdateId (snd (applyDepthEvent num (snd (applyDepthEvent num t ev)) ev)) =
     localLastUpdateId (snd (applyDepthEvent num t ev))"
  by (simp add: applyDepthEvent_def applyLevels_again)

text \<open>
  Claim C2, as amended. On a ready book an event is applied (levels updated, identifier set
  to \<open>u\<close>) exactly when the identifier is not zero, \<open>U \<le> id + 1\<close> and \<open>id \<le> u\<close>: an event
  with \<open>u = id\<close> is applied again. An event with \<open>u < id\<close> is ignored, leaving book and
  identifier as they are. Every other case is a gap: nothing is applied, the book is marked
  not ready, the event becomes the whole buffer, and a bootstrap is started unless a
  synchronisation is already in flight or the tracker is not running. Whatever the case,
  handing the same event to \<^verbatim>\<open>applyDepthEvent\<close> a second time changes neither the content
  of the two books nor the identifier.
\<close>

theorem depth_event_application:
  assumes "orderBookReady t"
  shows
    "(if localLastUpdateId t \<noteq> 0 \<and> ev_U ev \<le> localLastUpdateId t + 1 \<and>
        localLastUpdateId t \<le> ev_u ev
     then applyDepthEvent num t ev =
            (True, t\<lparr> bidBook := applyLevels num (bidBook t) (ev_bids ev),
                      askBook := applyLevels num (askBook t) (ev_asks ev),
                      localLastUpdateId := ev_u ev \<rparr>)
     else if localLastUpdateId t \<noteq> 0 \<and> ev_u ev < localLastUpdateId t
     then applyDepthEvent num t ev = (True, t) \<and>
          bidBook (handlePayload ops num now t (Some ev)) = bidBook t \<and>
          askBook (handlePayload ops num now t (Some ev)) = askBook t \<and>
          localLastUpdateId (handlePayload ops num now t (Some ev)) = localLastUpdateId t \<and>
          orderBookReady (handlePayload ops num now t (Some ev))
     else applyDepthEvent num t ev = (False, t) \<and>
          handlePayload ops num now t (Some ev) =
            ensureSynced (t\<lparr> orderBookReady := False, eventBuffer := [ev] \<rparr>) \<and>
          \<not> orderBookReady (handlePayload ops num now t (Some ev)) \<and>
          eventBuffer (handlePayload ops num now t (Some ev)) = [ev] \<and>
          bidBook (handlePayload ops num now t (Some ev)) = bidBook t \<and>
          askBook (handlePayload ops num now t (Some ev)) = askBook t \<and>
          localLastUpdateId (handlePayload ops num now t (Some ev)) = localLastUpdateId t \<and>
          (if syncInFlight t = None \<and> started t \<and> \<not> stopped t
           then syncInFlight (handlePayload ops num now t (Some ev)) = Some (Bootstrapping 0 ev)
           else syncInFlight (handlePayload ops num now t (Some ev)) = syncInFlight t)) \<and>
     (map_of (bidBook (snd (applyDepthEvent num (snd (applyDepthEvent num t ev)) ev))) =
        map_of (bidBook (snd (applyDepthEvent num t ev))) \<and>
      map_of (askBook (snd (applyDepthEvent num (snd (applyDepthEvent num t ev)) ev))) =
        map_of (askBook (snd (applyDepthEvent num t ev))) \<and>
      localLastUpdateId (snd (applyDepthEvent num (snd (applyDepthEvent num t ev)) ev)) =
        localLastUpdateId (snd (applyDepthEvent num t ev)))"
proof (rule conjI)
  show "map_of (bidBook (snd (applyDepthEvent num (snd (applyDepthEvent num t ev)) ev))) =
        map_of (bidBook (snd (applyDepthEvent num t ev))) \<and>
      map_of (askBook (snd (applyDepthEvent num (snd (applyDepthEvent num t ev)) ev))) =
        map_of (askBook (snd (applyDepthEvent num t ev))) \<and>
      localLastUpdateId (snd (applyDepthEvent num (snd (applyDepthEvent num t ev)) ev)) =
        localLastUpdateId (snd (applyDepthEvent num t ev))"
    by (rule applyDepthEvent_again)
qed (use assms in \<open>auto simp: applyDepthEvent_def handlePayload_def emitDepthSnapshot_fields
      ensureSynced_fields ensureSynced_def beginAttempt_def SYNC_SNAPSHOT_MAX_RETRIES_def\<close>)

theorem depth_event_application_witness:
  "orderBookReady readyAt100 \<and>
   handlePayload exactOps readInteger 5 readyAt100
     (Some \<lparr> ev_U = 110, ev_u = 120, ev_bids = [], ev_asks = [] \<rparr>)
   = readyAt100
       \<lparr> orderBookReady := False,
         eventBuffer := [\<lparr> ev_U = 110, ev_u = 120, ev_bids = [], ev_asks = [] \<rparr>],
         syncInFlight := Some (Bootstrapping 0
            \<lparr> ev_U = 110, ev_u = 120, ev_bids = [], ev_asks = [] \<rparr>) \<rparr>"
  using depth_event_application
    [where t = readyAt100 and ev = "\<lparr> ev_U = 110, ev_u = 120, ev_bids = [], ev_asks = [] \<rparr>"
       and num = readInteger and now = 5 and ops = exactOps]
  by (simp add: readyAt100_def tracker_defs)

text \<open>
  The claim as stated fails for an event with \<open>u\<close> equal to the identifier: it is neither
  inside \<open>U \<le> id + 1 \<le> u\<close> nor a no-op, for its levels reach the book.
\<close>

theorem duplicate_event_counterexample:
  "ev_u \<lparr> ev_U = 100, ev_u = 100, ev_bids = [(''100'', ''5'')], ev_asks = [] \<rparr>
     \<le> localLastUpdateId readyAt100 \<and>
   \<not> (localLastUpdateId readyAt100 + 1
        \<le> ev_u \<lparr> ev_U = 100, ev_u = 100, ev_bids = [(''100'', ''5'')], ev_asks = [] \<rparr>) \<and>
   bidBook readyAt100 = [] \<and>
   bidBook (snd (applyDepthEvent readInteger readyAt100
       \<lparr> ev_U = 100, ev_u = 100, ev_bids = [(''100'', ''5'')], ev_asks = [] \<rparr>))
     = [(''100'', Num 5)] \<and>
   bidBook (handlePayload exactOps readInteger 5 readyAt100
       (Some \<lparr> ev_U = 100, ev_u = 100, ev_bids = [(''100'', ''5'')], ev_asks = [] \<rparr>))
     = [(''100'', Num 5)]"
  by (simp add: readyAt100_def tracker_defs readInteger_samples)

subsection \<open>The skip flags of an emitted snapshot\<close>

lemma summarize_flags:
  "skipSellSide (summarize ops name now window lastId r buys sells) =
     (strict_eq sells (Num 0) \<or> num_gt buys (fmul ops sells r))"
  "skipBuySide (summarize ops name now window lastId r buys sells) =
     (strict_eq buys (Num 0) \<or> num_gt sells (fmul ops buys r))"
  "buySum (summarize ops name now window lastId r buys sells) = buys"
  "sellSum (summarize ops name now window lastId r buys sells) = sells"
  by (simp_all add: summarize_def)

lemma depthSnapshotOf_summarize:
  assumes "depthSnapshotOf ops num now t = Some s"
  shows "\<exists>window buys sells.
           s = summarize ops (symbol t) now window (localLastUpdateId t) (effectiveRatio t) buys sells"
proof (cases "findBestPrice num (bidBook t) Bid")
  case None
  with assms show ?thesis by (simp add: depthSnapshotOf_def)
next
  case b: (Some bestBid)
  show ?thesis
  proof (cases "findBestPrice num (askBook t) Ask")
    case None
    with assms b show ?thesis by (simp add: depthSnapshotOf_def)
  next
    case a: (Some bestAsk)
    show ?thesis
    proof (cases "num_le bestBid (Num 0) \<or> num_le bestAsk (Num 0) \<or> num_lt bestAsk bestBid")
      case True
      with assms a b show ?thesis by (simp add: depthSnapshotOf_def)
    next
      case False
      with assms a b have "s = summarize ops (symbol t) now (effectiveWindowBps t)
          (localLastUpdateId t) (effectiveRatio t)
          (sumBids ops num (fmul ops bestBid
             (fsub ops (Num 1) (fdiv ops (effectiveWindowBps t) (Num 10000)))) (Num 0) (bidBook t))
          (sumAsks ops num (fmul ops bestAsk
             (fadd ops (Num 1) (fdiv ops (effectiveWindowBps t) (Num 10000)))) (Num 0) (askBook t))"
        by (simp add: depthSnapshotOf_def Let_def)
      then show ?thesis by blast
    qed
  qed
qed

lemma snapshot_flags:
  assumes "depthSnapshotOf ops num now t = Some s"
  shows "skipSellSide s =
           (strict_eq (sellSum s) (Num 0) \<or>
            num_gt (buySum s) (fmul ops (sellSum s) (effectiveRatio t)))"
    and "skipBuySide s =
           (strict_eq (buySum s) (Num 0) \<or>
            num_gt (sellSum s) (fmul ops (buySum s) (effectiveRatio t)))"
proof -
  from depthSnapshotOf_summarize [OF assms] obtain window buys sells where
    s: "s = summarize ops (symbol t) now window (localLastUpdateId t) (effectiveRatio t) buys sells"
    by blast
  show "skipSellSide s =
           (strict_eq (sellSum s) (Num 0) \<or>
            num_gt (buySum s) (fmul ops (sellSum s) (effectiveRatio t)))"
    unfolding s by (simp only: summarize_flags)
  show "skipBuySide s =
           (strict_eq (buySum s) (Num 0) \<or>
            num_gt (sellSum s) (fmul ops (buySum s) (effectiveRatio t)))"
    unfolding s by (simp only: summarize_flags)
qed

text \<open>
  Claim C9. In every emitted snapshot, with \<open>R\<close> the larger of 1.01 and the configured
  ratio (2 when none is configured), \<open>skipSellSide\<close> holds iff \<open>sellSum\<close> is zero or
  \<open>buySum > sellSum * R\<close>, and \<open>skipBuySide\<close> iff \<open>buySum\<close> is zero or
  \<open>sellSum > buySum * R\<close>, where the sums are the ones the snapshot carries and \<open>*\<close> is the
  multiplication the program computes with (\<open>fmul ops\<close>, rounding included). So of two
  emitted snapshots under the same ratio whose sums are exchanged, each has the other's
  flags exchanged.
\<close>

theorem skip_flags_of_snapshot:
  assumes "depthSnapshotOf ops num now t = Some s"
  shows "effectiveRatio t =
           num_max (Num (101 / 100)) (case ratio t of None \<Rightarrow> Num 2 | Some r \<Rightarrow> r) \<and>
         skipSellSide s =
           (strict_eq (sellSum s) (Num 0) \<or>
            num_gt (buySum s) (fmul ops (sellSum s) (effectiveRatio t))) \<and>
         skipBuySide s =
           (strict_eq (buySum s) (Num 0) \<or>
            num_gt (sellSum s) (fmul ops (buySum s) (effectiveRatio t))) \<and>
         (depthSnapshotOf ops num' now' t' = Some s' \<and> effectiveRatio t' = effectiveRatio t \<and>
          buySum s' = sellSum s \<and> sellSum s' = buySum s
            \<longrightarrow> skipBuySide s' = skipSellSide s \<and> skipSellSide s' = skipBuySide s)"
proof -
  have r: "effectiveRatio t =
           num_max (Num (101 / 100)) (case ratio t of None \<Rightarrow> Num 2 | Some r \<Rightarrow> r)"
    by (simp add: effectiveRatio_def DEFAULT_IMBALANCE_RATIO_def split: option.splits)
  have swap: "skipBuySide s' = skipSellSide s \<and> skipSellSide s' = skipBuySide s"
    if "depthSnapshotOf ops num' now' t' = Some s'" and "effectiveRatio t' = effectiveRatio t"
      and "buySum s' = sellSum s" and "sellSum s' = buySum s"
    using snapshot_flags [OF assms] snapshot_flags [OF that(1)] that(2,3,4) by simp
  show ?thesis
    using r snapshot_flags [OF assms] swap by blast
qed

lemma heavy_snapshots:
  "depthSnapshotOf exactOps readInteger 0 buyHeavy =
     Some (summarize exactOps ''BTCUSDT'' 0 (Num 9) 0 (Num 2) (Num 3) (Num 1))"
  "depthSnapshotOf exactOps readInteger 0 sellHeavy =
     Some (summarize exactOps ''BTCUSDT'' 0 (Num 9) 0 (Num 2) (Num 1) (Num 3))"
  by (simp_all add: buyHeavy_def sellHeavy_def depthSnapshotOf_def findBestPrice_def
      newTracker_def effectiveWindowBps_def effectiveRatio_def DEFAULT_DEPTH_WINDOW_BPS_def
      DEFAULT_IMBALANCE_RATIO_def readInteger_samples exactOps_def num_le_def num_gt_def num_sub_def Let_def)

theorem skip_flags_of_snapshot_witness:
  "depthSnapshotOf exactOps readInteger 0 buyHeavy =
     Some (summarize exactOps ''BTCUSDT'' 0 (Num 9) 0 (Num 2) (Num 3) (Num 1)) \<and>
   depthSnapshotOf exactOps readInteger 0 sellHeavy =
     Some (summarize exactOps ''BTCUSDT'' 0 (Num 9) 0 (Num 2) (Num 1) (Num 3)) \<and>
   skipSellSide (summarize exactOps ''BTCUSDT'' 0 (Num 9) 0 (Num 2) (Num 3) (Num 1)) \<and>
   \<not> skipBuySide (summarize exactOps ''BTCUSDT'' 0 (Num 9) 0 (Num 2) (Num 3) (Num 1)) \<and>
   skipBuySide (summarize exactOps ''BTCUSDT'' 0 (Num 9) 0 (Num 2) (Num 1) (Num 3)) \<and>
   \<not> skipSellSide (summarize exactOps ''BTCUSDT'' 0 (Num 9) 0 (Num 2) (Num 1) (Num 3))"
  using skip_flags_of_snapshot
    [where ops = exactOps and num = readInteger and now = 0 and t = buyHeavy
       and s = "summarize exactOps ''BTCUSDT'' 0 (Num 9) 0 (Num 2) (Num 3) (Num 1)"
       and num' = readInteger and now' = 0 and t' = sellHeavy
       and s' = "summarize exactOps ''BTCUSDT'' 0 (Num 9) 0 (Num 2) (Num 1) (Num 3)"]
    heavy_snapshots
  by (simp add: summarize_def exactOps_def num_gt_def)

subsection \<open>Best bid and best ask\<close>

lemma findBestLoop_step:
  "findBestLoop num side best ((k, q) # book) = findBestLoop num side best book \<or>
   (findBestLoop num side best ((k, q) # book) = findBestLoop num side (Some (num k)) book \<and>
    isFinite (num k) \<and> \<not> num_le (num k) (Num 0))"
  by (simp add: Let_def split: option.splits)

lemma findBestLoop_source:
  "findBestLoop num side best book = Some p \<Longrightarrow>
     best = Some p \<or> (\<exists>k. p = num k \<and> isFinite (num k) \<and> \<not> num_le (num k) (Num 0))"
proof (induction book arbitrary: best)
  case Nil
  then show ?case by simp
next
  case (Cons level book)
  obtain k q where level: "level = (k, q)" by (cases level)
  from findBestLoop_step [of num side best k q book] show ?case
  proof
    assume "findBestLoop num side best ((k, q) # book) = findBestLoop num side best book"
    with Cons.prems level have "findBestLoop num side best book = Some p" by simp
    from Cons.IH [OF this] show ?thesis .
  next
    assume a: "findBestLoop num side best ((k, q) # book) =
                 findBestLoop num side (Some (num k)) book \<and>
               isFinite (num k) \<and> \<not> num_le (num k) (Num 0)"
    with Cons.prems level have "findBestLoop num side (Some (num k)) book = Some p" by simp
    from Cons.IH [OF this] a show ?thesis by blast
  qed
qed

lemma findBestPrice_finite:
  assumes "findBestPrice num book side = Some p"
  shows "\<exists>x. p = Num x \<and> 0 < x"
proof -
  from assms have "findBestLoop num side None book = Some p"
    by (simp add: findBestPrice_def)
  from findBestLoop_source [OF this] have "isFinite p \<and> \<not> num_le p (Num 0)"
    by auto
  then show ?thesis
    by (cases p) (simp_all add: num_le_def)
qed

lemma depthSnapshotOf_guard:
  assumes "depthSnapshotOf ops num now t = Some s"
  shows "\<exists>pb pa. findBestPrice num (bidBook t) Bid = Some pb \<and>
                 findBestPrice num (askBook t) Ask = Some pa \<and> \<not> num_lt pa pb"
proof (cases "findBestPrice num (bidBook t) Bid")
  case None
  with assms show ?thesis by (simp add: depthSnapshotOf_def)
next
  case b: (Some bestBid)
  show ?thesis
  proof (cases "findBestPrice num (askBook t) Ask")
    case None
    with assms b show ?thesis by (simp add: depthSnapshotOf_def)
  next
    case a: (Some bestAsk)
    show ?thesis
    proof (cases "num_le bestBid (Num 0) \<or> num_le bestAsk (Num 0) \<or> num_lt bestAsk bestBid")
      case True
      with assms a b show ?thesis by (simp add: depthSnapshotOf_def)
    next
      case False
      with a b show ?thesis by simp
    qed
  qed
qed

text \<open>
  Claim C5, as amended. Whenever the tracker emits a snapshot, both sides of its book have
  a best price, both are positive, and the best bid is at most the best ask: a crossed
  book is never published. (The book of a ready tracker itself is whatever the snapshots
  and events made it.)
\<close>

theorem emitted_snapshot_not_crossed:
  assumes "depthSnapshotOf ops num now t = Some s"
  shows "\<exists>b a. findBestPrice num (bidBook t) Bid = Some (Num b) \<and>
               findBestPrice num (askBook t) Ask = Some (Num a) \<and> 0 < b \<and> b \<le> a"
proof -
  from depthSnapshotOf_guard [OF assms] obtain pb pa where
    b: "findBestPrice num (bidBook t) Bid = Some pb" and
    a: "findBestPrice num (askBook t) Ask = Some pa" and
    n: "\<not> num_lt pa pb"
    by blast
  from findBestPrice_finite [OF b] obtain x where x: "pb = Num x" "0 < x" by blast
  from findBestPrice_finite [OF a] obtain y where y: "pa = Num y" "0 < y" by blast
  from n x y have "x \<le> y" by simp
  with b a x y show ?thesis by blast
qed

theorem emitted_snapshot_not_crossed_witness:
  "depthSnapshotOf exactOps readInteger 0 buyHeavy =
     Some (summarize exactOps ''BTCUSDT'' 0 (Num 9) 0 (Num 2) (Num 3) (Num 1)) \<and>
   findBestPrice readInteger (bidBook buyHeavy) Bid = Some (Num 100) \<and>
   findBestPrice readInteger (askBook buyHeavy) Ask = Some (Num 101)"
  using emitted_snapshot_not_crossed
    [where ops = exactOps and num = readInteger and now = 0 and t = buyHeavy
       and s = "summarize exactOps ''BTCUSDT'' 0 (Num 9) 0 (Num 2) (Num 3) (Num 1)"]
    heavy_snapshots(1)
  by (simp add: buyHeavy_def findBestPrice_def newTracker_def readInteger_samples num_le_def
      num_gt_def)

text \<open>The bound is not strict: a book whose best bid equals its best ask is published.\<close>

lemma locked_book_is_published:
  "depthSnapshotOf exactOps readInteger 0 lockedBook =
     Some (summarize exactOps ''BTCUSDT'' 0 (Num 9) 0 (Num 2) (Num 1) (Num 1))"
  by (simp add: lockedBook_def depthSnapshotOf_def findBestPrice_def
      newTracker_def effectiveWindowBps_def effectiveRatio_def DEFAULT_DEPTH_WINDOW_BPS_def
      DEFAULT_IMBALANCE_RATIO_def readInteger_samples exactOps_def num_le_def num_gt_def num_sub_def Let_def)

text \<open>
  The claim as stated fails: a snapshot and one applicable diff event lead to a ready
  tracker whose best bid, 101, is above its best ask, 100.
\<close>

lemma crossedRun_state:
  "orderBookReady (runTracker exactOps readInteger (newTracker ''BTCUSDT'' None None) crossedRun) \<and>
   bidBook (runTracker exactOps readInteger (newTracker ''BTCUSDT'' None None) crossedRun)
     = [(''99'', Num 1), (''101'', Num 1)] \<and>
   askBook (runTracker exactOps readInteger (newTracker ''BTCUSDT'' None None) crossedRun)
     = [(''100'', Num 1)]"
  by (simp add: crossedRun_def tracker_defs readInteger_samples Let_def)

theorem ready_book_crossed_counterexample:
  "orderBookReady (runTracker exactOps readInteger (newTracker ''BTCUSDT'' None None) crossedRun) \<and>
   findBestPrice readInteger
     (bidBook (runTracker exactOps readInteger (newTracker ''BTCUSDT'' None None) crossedRun)) Bid
     = Some (Num 101) \<and>
   findBestPrice readInteger
     (askBook (runTracker exactOps readInteger (newTracker ''BTCUSDT'' None None) crossedRun)) Ask
     = Some (Num 100)"
  by (simp add: crossedRun_state findBestPrice_def readInteger_samples num_le_def num_gt_def)

subsection \<open>The local update identifier\<close>

lemma applyDepthEvent_mono:
  "localLastUpdateId t \<le> localLastUpdateId (snd (applyDepthEvent num t ev))"
  by (simp add: applyDepthEvent_def)

lemma applyBuffered_mono:
  "localLastUpdateId t \<le> localLastUpdateId (snd (applyBuffered num t evs))"
proof (induction evs arbitrary: t)
  case Nil
  then show ?case by simp
next
  case (Cons ev evs)
  obtain ok t' where r: "applyDepthEvent num t ev = (ok, t')" by (cases "applyDepthEvent num t ev")
  with applyDepthEvent_mono [of t num ev] have le: "localLastUpdateId t \<le> localLastUpdateId t'"
    by simp
  show ?case
  proof (cases ok)
    case True
    with r le Cons.IH [of t'] show ?thesis by simp
  next
    case False
    with r le show ?thesis by simp
  qed
qed

lemma handlePayload_mono:
  "localLastUpdateId t \<le> localLastUpdateId (handlePayload ops num now t parsed)"
proof (cases parsed)
  case None
  then show ?thesis by (simp add: handlePayload_def)
next
  case (Some ev)
  obtain ok t' where r: "applyDepthEvent num t ev = (ok, t')" by (cases "applyDepthEvent num t ev")
  with applyDepthEvent_mono [of t num ev] have "localLastUpdateId t \<le> localLastUpdateId t'"
    by simp
  with Some r show ?thesis
    by (cases ok) (simp_all add: handlePayload_def Let_def ensureSynced_fields emitDepthSnapshot_fields)
qed

lemma fetchDepthSnapshot_result:
  "fetchDepthSnapshot now t response = (t1, r) \<Longrightarrow>
     localLastUpdateId t1 = localLastUpdateId t \<and>
     (case r of None \<Rightarrow> True | Some snap \<Rightarrow> response = Inr snap)"
  by (auto simp: fetchDepthSnapshot_def Let_def split: sum.splits if_splits)

lemma resetOrderBook_id:
  "localLastUpdateId (resetOrderBook num now t snap) = lastUpdateId snap"
  by (simp add: resetOrderBook_def)

lemma after_reset_mono:
  assumes "localLastUpdateId t \<le> localLastUpdateId t2"
  shows "localLastUpdateId t \<le> localLastUpdateId
     (case buffered of
        [] \<Rightarrow> emitDepthSnapshot ops num now
               (t2\<lparr> orderBookReady := True, eventBuffer := [], syncInFlight := None \<rparr>)
      | nextEvent # _ \<Rightarrow>
          if ev_U nextEvent > lastId + 1 \<or> ev_u nextEvent < lastId + 1
          then beginAttempt t2 k
          else (case applyBuffered num t2 buffered of
                  (False, t3) \<Rightarrow> beginAttempt t3 k
                | (True, t3) \<Rightarrow> emitDepthSnapshot ops num now
                     (t3\<lparr> orderBookReady := True, eventBuffer := [], syncInFlight := None \<rparr>)))"
proof -
  obtain ok t3 where r: "applyBuffered num t2 buffered = (ok, t3)"
    by (cases "applyBuffered num t2 buffered")
  with applyBuffered_mono [of t2 num buffered] assms
  have "localLastUpdateId t \<le> localLastUpdateId t3" by simp
  with assms r show ?thesis
    by (cases buffered; cases ok) (simp_all add: emitDepthSnapshot_fields beginAttempt_fields)
qed

lemma bootstrap_mono:
  assumes "case response of Inl _ \<Rightarrow> True | Inr snap \<Rightarrow> localLastUpdateId t \<le> lastUpdateId snap"
  shows "localLastUpdateId t \<le>
         localLastUpdateId (bootstrapOrderBookFromSnapshot ops num now t k fb response)"
proof -
  obtain t1 r where f: "fetchDepthSnapshot now t response = (t1, r)"
    by (cases "fetchDepthSnapshot now t response")
  note fr = fetchDepthSnapshot_result [OF f]
  show ?thesis
  proof (cases r)
    case None
    with f fr show ?thesis by (simp add: bootstrapOrderBookFromSnapshot_def)
  next
    case (Some snap)
    with fr have resp: "response = Inr snap" by simp
    with assms have le: "localLastUpdateId t \<le> lastUpdateId snap" by simp
    show ?thesis
    proof (cases "lastUpdateId snap < ev_U fb")
      case True
      with f Some fr show ?thesis
        by (simp add: bootstrapOrderBookFromSnapshot_def beginAttempt_fields)
    next
      case False
      have "localLastUpdateId t \<le> localLastUpdateId (resetOrderBook num now t1 snap)"
        using le by (simp add: resetOrderBook_id)
      from after_reset_mono [OF this] False f Some show ?thesis
        by (simp add: bootstrapOrderBookFromSnapshot_def Let_def)
    qed
  qed
qed

lemma refresh_mono:
  "localLastUpdateId t \<le>
     localLastUpdateId (refreshOrderBookFromSnapshot ops num now t response)"
proof -
  obtain t1 r where f: "fetchDepthSnapshot now t response = (t1, r)"
    by (cases "fetchDepthSnapshot now t response")
  note fr = fetchDepthSnapshot_result [OF f]
  show ?thesis
    using f fr
    by (cases r) (simp_all add: refreshOrderBookFromSnapshot_def emitDepthSnapshot_fields
        resetOrderBook_id)
qed

lemma trackerStep_mono:
  assumes "\<not> olderBootstrap t op"
  shows "localLastUpdateId t \<le> localLastUpdateId (trackerStep ops num t op)"
proof (cases op)
  case (FetchDone now response)
  show ?thesis
  proof (cases "syncInFlight t")
    case None
    with FetchDone show ?thesis by (simp add: fetchDone_def)
  next
    case (Some task)
    show ?thesis
    proof (cases task)
      case (Bootstrapping k fb)
      with assms Some FetchDone
      have "case response of Inl _ \<Rightarrow> True | Inr snap \<Rightarrow> localLastUpdateId t \<le> lastUpdateId snap"
        by (simp add: olderBootstrap_def split: sum.splits)
      from bootstrap_mono [OF this] Bootstrapping Some FetchDone show ?thesis
        by (simp add: fetchDone_def)
    next
      case Refreshing
      with Some FetchDone refresh_mono show ?thesis by (simp add: fetchDone_def)
    qed
  qed
next
  case (WsMessage now parsed)
  have "localLastUpdateId t \<le> localLastUpdateId (handleMessage ops num now t parsed)"
    unfolding handleMessage_def
    by (rule order_trans [OF _ handlePayload_mono]) simp
  with WsMessage show ?thesis by simp
qed (simp_all add: start_def stop_def connect_def handleOpen_def handleClose_def
      heartbeatCheck_def forceReconnect_def refreshSyncTick_def ensureSynced_fields Let_def)

lemma applyDepthEvent_applied:
  assumes "localLastUpdateId t \<noteq> 0" "ev_U ev \<le> localLastUpdateId t + 1"
    "localLastUpdateId t \<le> ev_u ev"
  shows "fst (applyDepthEvent num t ev)"
    and "localLastUpdateId (snd (applyDepthEvent num t ev)) = ev_u ev"
    and "orderBookReady (snd (applyDepthEvent num t ev)) = orderBookReady t"
  using assms by (simp_all add: applyDepthEvent_def)

lemma applyBuffered_in_order:
  assumes "evs \<noteq> []" and "appliedInOrder (localLastUpdateId t) evs"
  shows "fst (applyBuffered num t evs) \<and>
         localLastUpdateId (snd (applyBuffered num t evs)) = ev_u (last evs)"
  using assms
proof (induction evs arbitrary: t)
  case Nil
  then show ?case by simp
next
  case (Cons ev evs)
  obtain ok t' where r: "applyDepthEvent num t ev = (ok, t')"
    by (cases "applyDepthEvent num t ev")
  from Cons.prems(2) have a: "localLastUpdateId t \<noteq> 0" "ev_U ev \<le> localLastUpdateId t + 1"
    "localLastUpdateId t \<le> ev_u ev" and rest: "appliedInOrder (ev_u ev) evs"
    by simp_all
  from applyDepthEvent_applied [OF a, of num] r have ok: "ok" and id: "localLastUpdateId t' = ev_u ev"
    by simp_all
  show ?case
  proof (cases "evs = []")
    case True
    with r ok id show ?thesis by simp
  next
    case False
    from rest id have "appliedInOrder (localLastUpdateId t') evs" by simp
    from Cons.IH [OF False this] r ok False show ?thesis by simp
  qed
qed

lemma handleMessage_applied:
  assumes "orderBookReady t" "localLastUpdateId t \<noteq> 0" "ev_U ev \<le> localLastUpdateId t + 1"
    "localLastUpdateId t \<le> ev_u ev"
  shows "orderBookReady (handleMessage ops num now t (Some ev)) \<and>
         localLastUpdateId (handleMessage ops num now t (Some ev)) = ev_u ev"
  using assms
  by (simp add: handleMessage_def handlePayload_def applyDepthEvent_def emitDepthSnapshot_fields)

lemma live_in_order:
  assumes "orderBookReady t" and "tevs \<noteq> []"
    and "appliedInOrder (localLastUpdateId t) (map snd tevs)"
  shows "localLastUpdateId
           (runTracker ops num t (map (\<lambda>(now, ev). WsMessage now (Some ev)) tevs))
         = ev_u (snd (last tevs))"
  using assms
proof (induction tevs arbitrary: t)
  case Nil
  then show ?case by simp
next
  case (Cons tev tevs)
  obtain now ev where tev: "tev = (now, ev)" by (cases tev)
  from Cons.prems(3) tev have a: "localLastUpdateId t \<noteq> 0" "ev_U ev \<le> localLastUpdateId t + 1"
    "localLastUpdateId t \<le> ev_u ev" and rest: "appliedInOrder (ev_u ev) (map snd tevs)"
    by simp_all
  note h = handleMessage_applied [OF Cons.prems(1) a, where num = num and now = now and ops = ops]
  show ?case
  proof (cases "tevs = []")
    case True
    with h tev show ?thesis by (simp add: runTracker_def)
  next
    case False
    from h rest have "appliedInOrder (localLastUpdateId (handleMessage ops num now t (Some ev))) (map snd tevs)"
      by simp
    from Cons.IH [OF _ False this] h tev False show ?thesis
      by (simp add: runTracker_def)
  qed
qed

text \<open>
  Claim C6, as amended. The identifier does not decrease over anything that happens to a
  tracker, a diff event and a periodic refresh included, except the return of a
  bootstrap's fetch with a snapshot older than the identifier (the bootstrap resets the
  identifier to the snapshot's without comparing them). After a non-empty sequence of
  events each of which is applied, in the bootstrap's loop or live on a ready book, the
  identifier is the \<open>u\<close> of the last event.
\<close>

theorem local_update_id_monotone:
  "(\<not> olderBootstrap t op \<longrightarrow>
      localLastUpdateId t \<le> localLastUpdateId (trackerStep ops num t op)) \<and>
   (evs \<noteq> [] \<and> appliedInOrder (localLastUpdateId t2) evs \<longrightarrow>
      fst (applyBuffered num t2 evs) \<and>
      localLastUpdateId (snd (applyBuffered num t2 evs)) = ev_u (last evs)) \<and>
   (orderBookReady t2 \<and> tevs \<noteq> [] \<and> appliedInOrder (localLastUpdateId t2) (map snd tevs) \<longrightarrow>
      localLastUpdateId (runTracker ops num t2 (map (\<lambda>(now, ev). WsMessage now (Some ev)) tevs))
        = ev_u (snd (last tevs)))"
  using trackerStep_mono [where t = t and op = op and num = num and ops = ops]
    applyBuffered_in_order [of evs t2 num]
    live_in_order [where t = t2 and tevs = tevs and num = num and ops = ops]
  by blast

lemma bufferedRun_state:
  "syncInFlight (runTracker exactOps readInteger (newTracker ''BTCUSDT'' None None) bufferedRun) =
     Some (Bootstrapping 0 \<lparr> ev_U = 5, ev_u = 7, ev_bids = [], ev_asks = [] \<rparr>) \<and>
   localLastUpdateId (runTracker exactOps readInteger (newTracker ''BTCUSDT'' None None) bufferedRun) = 0 \<and>
   \<not> orderBookReady (runTracker exactOps readInteger (newTracker ''BTCUSDT'' None None) bufferedRun)"
  by (simp add: bufferedRun_def tracker_defs)

theorem local_update_id_monotone_witness:
  "localLastUpdateId
     (trackerStep exactOps readInteger (runTracker exactOps readInteger (newTracker ''BTCUSDT'' None None) bufferedRun)
        (FetchDone 4 (Inr \<lparr> lastUpdateId = 8, snap_bids = [], snap_asks = [] \<rparr>))) = 11 \<and>
   orderBookReady
     (trackerStep exactOps readInteger (runTracker exactOps readInteger (newTracker ''BTCUSDT'' None None) bufferedRun)
        (FetchDone 4 (Inr \<lparr> lastUpdateId = 8, snap_bids = [], snap_asks = [] \<rparr>))) \<and>
   applyBuffered readInteger
     ((newTracker ''BTCUSDT'' None None) \<lparr> localLastUpdateId := 8, orderBookReady := True \<rparr>)
     [\<lparr> ev_U = 8, ev_u = 9, ev_bids = [], ev_asks = [] \<rparr>,
      \<lparr> ev_U = 10, ev_u = 11, ev_bids = [], ev_asks = [] \<rparr>]
   = (True, (newTracker ''BTCUSDT'' None None)
              \<lparr> localLastUpdateId := 11, orderBookReady := True \<rparr>) \<and>
   localLastUpdateId
     (runTracker exactOps readInteger
        ((newTracker ''BTCUSDT'' None None) \<lparr> localLastUpdateId := 8, orderBookReady := True \<rparr>)
        [WsMessage 1 (Some \<lparr> ev_U = 8, ev_u = 9, ev_bids = [], ev_asks = [] \<rparr>),
         WsMessage 2 (Some \<lparr> ev_U = 10, ev_u = 11, ev_bids = [], ev_asks = [] \<rparr>)]) = 11"
proof -
  have first: "localLastUpdateId
     (trackerStep exactOps readInteger (runTracker exactOps readInteger (newTracker ''BTCUSDT'' None None) bufferedRun)
        (FetchDone 4 (Inr \<lparr> lastUpdateId = 8, snap_bids = [], snap_asks = [] \<rparr>))) = 11 \<and>
   orderBookReady
     (trackerStep exactOps readInteger (runTracker exactOps readInteger (newTracker ''BTCUSDT'' None None) bufferedRun)
        (FetchDone 4 (Inr \<lparr> lastUpdateId = 8, snap_bids = [], snap_asks = [] \<rparr>)))"
    by (simp add: bufferedRun_def tracker_defs Let_def)
  have older: "\<not> olderBootstrap
      (runTracker exactOps readInteger (newTracker ''BTCUSDT'' None None) bufferedRun)
      (FetchDone 4 (Inr \<lparr> lastUpdateId = 8, snap_bids = [], snap_asks = [] \<rparr>))"
    by (simp add: olderBootstrap_def bufferedRun_state)
  show ?thesis
    using first older local_update_id_monotone
      [where t = "runTracker exactOps readInteger (newTracker ''BTCUSDT'' None None) bufferedRun"
         and op = "FetchDone 4 (Inr \<lparr> lastUpdateId = 8, snap_bids = [], snap_asks = [] \<rparr>)"
         and ops = exactOps and num = readInteger
         and evs = "[\<lparr> ev_U = 8, ev_u = 9, ev_bids = [], ev_asks = [] \<rparr>,
          \<lparr> ev_U = 10, ev_u = 11, ev_bids = [], ev_asks = [] \<rparr>]"
         and ?t2.0 = "(newTracker ''BTCUSDT'' None None)
            \<lparr> localLastUpdateId := 8, orderBookReady := True \<rparr>"
         and tevs = "[(1, \<lparr> ev_U = 8, ev_u = 9, ev_bids = [], ev_asks = [] \<rparr>),
          (2, \<lparr> ev_U = 10, ev_u = 11, ev_bids = [], ev_asks = [] \<rparr>)]"]
    by (simp add: tracker_defs)
qed

text \<open>
  The claim as stated fails for the bootstrap: after a reconnect, a buffered event
  \<open>(50, 60)\<close> and a snapshot at 55 take the identifier from 105 to 60.
\<close>

theorem bootstrap_lowers_id_counterexample:
  "localLastUpdateId (runTracker exactOps readInteger (newTracker ''BTCUSDT'' None None) olderRun) = 105 \<and>
   localLastUpdateId
     (trackerStep exactOps readInteger (runTracker exactOps readInteger (newTracker ''BTCUSDT'' None None) olderRun)
        (FetchDone 12 (Inr \<lparr> lastUpdateId = 55, snap_bids = [], snap_asks = [] \<rparr>))) = 60"
  by (simp add: olderRun_def tracker_defs Let_def)

section \<open>Properties of the swing engine\<close>

subsection \<open>The kill-switch\<close>









subsection \<open>The spot guard\<close>

lemma emitUpdate_keeps:
  "disabled (emitUpdate e) = disabled e"
  "swingState (emitUpdate e) = swingState e"
  "ordersSent (emitUpdate e) = ordersSent e"
  "lastError (emitUpdate e) = lastError e"
  "tradeLog (emitUpdate e) = tradeLog e"
  by (simp_all add: emitUpdate_def ordersSent_def)

lemma tick_disabled:
  "disabled e \<Longrightarrow>
     tick ops num inp e = (if processing e \<or> decision inp = Skip then e else emitUpdate e)"
  by (cases "decision inp") (simp_all add: tick_def)

lemma engineStep_disabled:
  assumes "disabled e"
  shows "disabled (engineStep ops num e op) \<and> swingState (engineStep ops num e op) = swingState e \<and>
         ordersSent (engineStep ops num e op) = ordersSent e"
proof (cases op)
  case (Tick inp)
  with assms show ?thesis by (simp add: tick_disabled emitUpdate_keeps)
next
  case (Precision t s)
  with assms show ?thesis by (simp add: syncPrecision_def Let_def ordersSent_def)
qed (use assms in \<open>simp_all add: onAccount_def onOrders_def onDepth_def onTicker_def onRsi_def
      emitUpdate_def ordersSent_def Let_def\<close>)

lemma runEngine_disabled:
  assumes "disabled e"
  shows "disabled (runEngine ops num e happenings) \<and> swingState (runEngine ops num e happenings) = swingState e \<and>
         ordersSent (runEngine ops num e happenings) = ordersSent e"
  using assms
proof (induction happenings arbitrary: e)
  case Nil
  then show ?case by (simp add: runEngine_def)
next
  case (Cons op happenings)
  note s = engineStep_disabled [OF Cons.prems, where num = num and op = op and ops = ops]
  from s have "disabled (engineStep ops num e op)" by simp
  from Cons.IH [OF this] s show ?case by (simp add: runEngine_def)
qed

lemma onAccount_spot:
  assumes "marketType snap = ''spot''"
    and "direction (config e) = Short \<or> direction (config e) = Both"
  shows "disabled (onAccount e snap)"
    and "swingState (onAccount e snap) = swingState e"
    and "ordersSent (onAccount e snap) = ordersSent e"
    and "\<not> disabled e \<Longrightarrow> lastError (onAccount e snap) = Some spotError"
    and "\<not> disabled e \<Longrightarrow> tradeLog (onAccount e snap) = tradeLog e @ [(''error'', spotError)]"
    and "\<not> disabled e \<Longrightarrow>
           requests (onAccount e snap) = requests e @ [EmitUpdate False True (Some spotError)]"
  using assms
  by (auto simp: onAccount_def Let_def emitUpdate_keeps emitUpdate_def ordersSent_def)

text \<open>
  Claim C8, as amended. An account snapshot of a spot account, received while the
  direction is short or both, disables the engine; if it was not disabled already, the
  error is recorded (in \<open>lastError\<close> and the trade log) and a snapshot with the disabled
  flag and the error is emitted. Whatever happens afterwards the engine stays disabled,
  the swing state is never stepped and no order request is sent. A later tick emits a
  snapshot and returns, unless the rate-limit controller decides to skip the cycle (or a
  tick is still in progress): then it returns without emitting.
\<close>

theorem spot_guard_permanent:
  assumes "marketType snap = ''spot''"
    and "direction (config e) = Short \<or> direction (config e) = Both"
    and "e' = runEngine ops num (onAccount e snap) happenings"
  shows "disabled (onAccount e snap) \<and>
         (if disabled e then True
          else lastError (onAccount e snap) = Some spotError \<and>
               tradeLog (onAccount e snap) = tradeLog e @ [(''error'', spotError)] \<and>
               requests (onAccount e snap) =
                 requests e @ [EmitUpdate False True (Some spotError)]) \<and>
         disabled e' \<and> swingState e' = swingState e \<and> ordersSent e' = ordersSent e \<and>
         tick ops num inp e' = (if processing e' \<or> decision inp = Skip then e' else emitUpdate e') \<and>
         swingState (tick ops num inp e') = swingState e \<and>
         ordersSent (tick ops num inp e') = ordersSent e"
proof -
  note a = onAccount_spot [OF assms(1,2)]
  note r = runEngine_disabled
    [OF a(1), where num = num and happenings = happenings and ops = ops, folded assms(3)]
  note t = tick_disabled [where e = e' and num = num and inp = inp and ops = ops]
  from r t have "swingState (tick ops num inp e') = swingState e'"
    and "ordersSent (tick ops num inp e') = ordersSent e'"
    by (simp_all add: emitUpdate_keeps)
  with a r t show ?thesis by simp
qed

theorem spot_guard_permanent_witness:
  "disabled (onAccount (newEngine sampleConfig) spotAccount) \<and>
   requests (onAccount (newEngine sampleConfig) spotAccount) =
     [EmitUpdate False True (Some spotError)] \<and>
   requests (runEngine exactOps readInteger (onAccount (newEngine sampleConfig) spotAccount)
               [Tick (sampleInput Run), Tick (sampleInput Paused)]) =
     [EmitUpdate False True (Some spotError), EmitUpdate False True (Some spotError),
      EmitUpdate False True (Some spotError)]"
  using spot_guard_permanent
    [where snap = spotAccount and e = "newEngine sampleConfig"
       and e' = "runEngine exactOps readInteger (onAccount (newEngine sampleConfig) spotAccount)
         [Tick (sampleInput Run), Tick (sampleInput Paused)]"
       and ops = exactOps and num = readInteger
       and happenings = "[Tick (sampleInput Run), Tick (sampleInput Paused)]"
       and inp = "sampleInput Run"]
  by (simp add: spotAccount_def newEngine_def sampleConfig_def sampleInput_def onAccount_def
      emitUpdate_def isReady_def runEngine_def tick_def Let_def)

text \<open>
  The claim as stated fails for a tick that the rate-limit controller skips: the disabled
  engine returns without emitting a snapshot.
\<close>

theorem skipped_tick_counterexample:
  "disabled (onAccount (newEngine sampleConfig) spotAccount) \<and>
   requests (tick exactOps readInteger (sampleInput Skip) (onAccount (newEngine sampleConfig) spotAccount))
     = requests (onAccount (newEngine sampleConfig) spotAccount)"
  by (simp add: spotAccount_def newEngine_def sampleConfig_def sampleInput_def onAccount_def
      emitUpdate_def isReady_def tick_def Let_def)

end
